theory Spec2Isabelle
  imports Main "HOL-Library.Sublist"
begin

section \<open>The PostgreSQL plugin of nifty-lil-tricks-testing: the orchestration core\<close>

text \<open>
  This theory embeds \<^verbatim>\<open>plugin_postgresql/plugin.ts\<close>: the class \<^verbatim>\<open>PluginFactory\<close>
  with its private methods \<^verbatim>\<open>#setup\<close>, \<^verbatim>\<open>#buildTeardown\<close>,
  \<^verbatim>\<open>#setupExistingDatabaseServer\<close>, \<^verbatim>\<open>#setupNewDatabaseServer\<close>,
  \<^verbatim>\<open>#shouldRunDatabaseCreation\<close>, \<^verbatim>\<open>#shouldRunMigration\<close> and
  \<^verbatim>\<open>#shouldRunSeed\<close>.

  The strategies the factory delegates to (\<^verbatim>\<open>ConnectionStrategy\<close>,
  \<^verbatim>\<open>DockerServerStrategy\<close>, \<^verbatim>\<open>DatabaseStrategy\<close>, \<^verbatim>\<open>SqlMigrationStrategy\<close>,
  \<^verbatim>\<open>SeedStrategy\<close>), the method \<^verbatim>\<open>Server.init\<close> and \<^verbatim>\<open>Math.random\<close> live in other
  modules. They are parameters of the model, collected in the record \<open>Collaborators\<close>;
  every theorem that quantifies over that record holds for whatever they do.
\<close>

subsection \<open>Promises: asynchronous computations over an external world\<close>

text \<open>
  A thrown value is an \<^verbatim>\<open>Error\<close> with its message. An asynchronous computation takes
  the state of the external world (containers, databases, the random generator) and
  gives back the new world with either the rejection reason (\<open>Inl\<close>) or the value the
  promise resolves to (\<open>Inr\<close>). A synchronous throw inside an \<^verbatim>\<open>async\<close> function
  rejects its promise, so both are the \<open>Inl\<close> branch.
\<close>

datatype error = Error string

type_synonym ('a, 'w) async = "'w \<Rightarrow> (error + 'a) \<times> 'w"

definition resolve :: "'a \<Rightarrow> ('a, 'w) async" where
  "resolve x = (\<lambda>w. (Inr x, w))"

definition reject :: "error \<Rightarrow> ('a, 'w) async" where
  "reject e = (\<lambda>w. (Inl e, w))"

text \<open>
  \<open>await m k\<close> is \<^verbatim>\<open>const x = await m; k(x)\<close>: the continuation runs on the world
  \<open>m\<close> left, and only when \<open>m\<close> resolved.
\<close>

definition await :: "('a, 'w) async \<Rightarrow> ('a \<Rightarrow> ('b, 'w) async) \<Rightarrow> ('b, 'w) async" where
  "await m k = (\<lambda>w. case m w of (Inl e, w') \<Rightarrow> (Inl e, w') | (Inr x, w') \<Rightarrow> k x w')"

subsection \<open>Data\<close>

text \<open>
  A \<^verbatim>\<open>Server\<close> is an object: the model holds its reference, and what the object
  contains (its connection, whether it was initialised) is part of the world. Equality
  of two values of type \<open>Server\<close> is therefore \<^verbatim>\<open>===\<close> on the objects.

  Fields of the interfaces carry a prefix, since several interfaces share field names:
  \<open>srv_\<close> for \<^verbatim>\<open>ServerConfig\<close>, \<open>dkr_\<close> for \<^verbatim>\<open>DockerServerStrategyConfig\<close>,
  \<open>db_\<close> for \<^verbatim>\<open>DatabaseConfig\<close>, \<open>mig_\<close> for \<^verbatim>\<open>MigrationConfig\<close>, \<open>cfg_\<close> for
  \<^verbatim>\<open>PluginConfig\<close>, \<open>inst_\<close> for \<^verbatim>\<open>PluginInstance\<close>, \<open>dbo_\<close> for
  \<^verbatim>\<open>DatabaseOutput\<close>, \<open>res_\<close> for \<^verbatim>\<open>PluginResult\<close>. An optional field
  (\<^verbatim>\<open>port?: number\<close>) is an \<open>option\<close>, \<open>None\<close> when it is \<^verbatim>\<open>undefined\<close>.
\<close>

datatype Server = Server nat

text \<open>
  The enums have one member each. The second constructor stands for any other value
  that reaches the \<^verbatim>\<open>switch\<close> at run time, with the text it prints as.
\<close>

datatype ServerStrategy = DOCKER | UnknownServerStrategy string

datatype MigrationStrategy = SQL | UnknownMigrationStrategy string

record ServerConfig =
  srv_strategy :: ServerStrategy
  srv_port :: "int option"
  srv_user :: "string option"
  srv_password :: "string option"
  srv_databaseName :: "string option"
  srv_databaseNamePrefix :: "string option"
  srv_databaseServerNamePrefix :: "string option"
  srv_version :: "string option"

record DockerServerStrategyConfig =
  dkr_serverName :: string
  dkr_port :: int
  dkr_user :: string
  dkr_password :: string
  dkr_database :: string
  dkr_version :: string

record DatabaseConfig =
  db_prefix :: "string option"

record MigrationConfig =
  mig_strategy :: MigrationStrategy
  mig_root :: string

text \<open>A seed config maps a table name to its rows, in the order the caller wrote them.\<close>

type_synonym SeedConfig = "(string \<times> (string \<times> string) list list) list"

record MigrationOutput =
  mig_results :: "string list"

record SeedOutput =
  seed_results :: "string list"

datatype ServerOrConfig = IsServer Server | IsConfig ServerConfig

record PluginConfig =
  cfg_server :: ServerOrConfig
  cfg_database :: "DatabaseConfig option"
  cfg_migrate :: "MigrationConfig option"
  cfg_seed :: "SeedConfig option"

record ('a, 'w) PluginInstance =
  inst_teardown :: "(unit, 'w) async"
  inst_output :: 'a

record 'w DatabaseOutput =
  dbo_server :: Server
  dbo_teardown :: "(unit, 'w) async"

record PluginResult =
  res_server :: Server
  res_migrate :: MigrationOutput
  res_seed :: SeedOutput

subsection \<open>The collaborators\<close>

text \<open>
  \<^item> \<open>Math_random_string\<close> is \<^verbatim>\<open>Math.random().toString(36).substring(2)\<close>;
  \<^item> \<open>ConnectionStrategy_setup s\<close> is \<^verbatim>\<open>new ConnectionStrategy(s).setup()\<close>;
  \<^item> \<open>DockerServerStrategy_setup c\<close> is \<^verbatim>\<open>new DockerServerStrategy(c).setup()\<close>;
  \<^item> \<open>Server_init s\<close> is \<^verbatim>\<open>s.init()\<close>;
  \<^item> \<open>DatabaseStrategy_run c s\<close> is \<^verbatim>\<open>new DatabaseStrategy(c, s).run()\<close>;
  \<^item> \<open>SqlMigrationStrategy_run c s\<close> is
    \<^verbatim>\<open>new SqlMigrationStrategy(c, s.connection).run()\<close>;
  \<^item> \<open>SeedStrategy_run c s\<close> is \<^verbatim>\<open>new SeedStrategy(c, s.connection).run()\<close>.
\<close>

record 'w Collaborators =
  Math_random_string :: "'w \<Rightarrow> string \<times> 'w"
  ConnectionStrategy_setup :: "Server \<Rightarrow> ((Server, 'w) PluginInstance, 'w) async"
  DockerServerStrategy_setup ::
    "DockerServerStrategyConfig \<Rightarrow> ((Server, 'w) PluginInstance, 'w) async"
  Server_init :: "Server \<Rightarrow> (unit, 'w) async"
  DatabaseStrategy_run :: "DatabaseConfig \<Rightarrow> Server \<Rightarrow> ('w DatabaseOutput, 'w) async"
  SqlMigrationStrategy_run :: "MigrationConfig \<Rightarrow> Server \<Rightarrow> (MigrationOutput, 'w) async"
  SeedStrategy_run :: "SeedConfig \<Rightarrow> Server \<Rightarrow> (SeedOutput, 'w) async"

text \<open>
  Modelled from the spec: \<^verbatim>\<open>assertNever\<close>, imported from the testing module
  \<^verbatim>\<open>mod.ts\<close>, which is not among the sources. The spec calls it a runtime
  "assert impossible case" that fails loudly and immediately: it throws an
  \<^verbatim>\<open>Error\<close> carrying the message it is given.
\<close>

definition assertNever :: "string \<Rightarrow> ('a, 'w) async" where
  "assertNever message = reject (Error message)"

subsection \<open>The operators \<^verbatim>\<open>||\<close> and \<^verbatim>\<open>??\<close> on optional fields\<close>

text \<open>
  \<^verbatim>\<open>a || b\<close> is \<open>b\<close> when \<open>a\<close> is falsy: \<^verbatim>\<open>undefined\<close> or the empty string.
  \<^verbatim>\<open>a ?? b\<close> is \<open>b\<close> only when \<open>a\<close> is \<^verbatim>\<open>undefined\<close>.
\<close>

definition or_else :: "string option \<Rightarrow> string \<Rightarrow> string" where
  "or_else a b = (case a of None \<Rightarrow> b | Some s \<Rightarrow> if s = [] then b else s)"

definition nullish :: "'a option \<Rightarrow> 'a \<Rightarrow> 'a" where
  "nullish a b = (case a of None \<Rightarrow> b | Some v \<Rightarrow> v)"

subsection \<open>The methods of \<^verbatim>\<open>PluginFactory\<close>\<close>

text \<open>\<^verbatim>\<open>#buildTeardown\<close>: a \<^verbatim>\<open>for ... of\<close> loop that awaits each action in turn.\<close>

fun buildTeardown :: "(unit, 'w) async list \<Rightarrow> (unit, 'w) async" where
  "buildTeardown [] = resolve ()"
| "buildTeardown (teardown # teardowns) = await teardown (\<lambda>_. buildTeardown teardowns)"

definition setupExistingDatabaseServer ::
  "'w Collaborators \<Rightarrow> Server \<Rightarrow> ((Server, 'w) PluginInstance, 'w) async" where
  "setupExistingDatabaseServer env server = ConnectionStrategy_setup env server"

text \<open>
  \<^verbatim>\<open>#setupNewDatabaseServer\<close>. The random suffix is drawn first and once; a second
  and a third draw happen only when \<^verbatim>\<open>user\<close> and \<^verbatim>\<open>password\<close> are
  \<^verbatim>\<open>undefined\<close>, since \<^verbatim>\<open>??\<close> evaluates its right operand only then.
\<close>

definition setupNewDatabaseServer ::
  "'w Collaborators \<Rightarrow> ServerConfig \<Rightarrow> ((Server, 'w) PluginInstance, 'w) async" where
  "setupNewDatabaseServer env config = (\<lambda>w0.
     let (suffix, w1) = Math_random_string env w0;
         database = or_else (srv_databaseName config)
           (or_else (srv_databaseNamePrefix config) ''postgres'' @ ''-'' @ suffix);
         serverName = or_else (srv_databaseServerNamePrefix config) ''postgres'' @ ''-'' @ suffix;
         port = nullish (srv_port config) 0;
         (user, w2) = (case srv_user config of
                         Some u \<Rightarrow> (u, w1)
                       | None \<Rightarrow> Math_random_string env w1);
         (password, w3) = (case srv_password config of
                             Some p \<Rightarrow> (p, w2)
                           | None \<Rightarrow> Math_random_string env w2);
         version = or_else (srv_version config) ''latest''
     in case srv_strategy config of
          DOCKER \<Rightarrow>
            DockerServerStrategy_setup env
              \<lparr>dkr_serverName = serverName, dkr_port = port, dkr_user = user,
               dkr_password = password, dkr_database = database, dkr_version = version\<rparr> w3
        | UnknownServerStrategy tag \<Rightarrow> assertNever (''Unknown strategy: '' @ tag) w3)"

definition shouldRunDatabaseCreation ::
  "'w Collaborators \<Rightarrow> PluginConfig \<Rightarrow> Server \<Rightarrow> ('w DatabaseOutput, 'w) async" where
  "shouldRunDatabaseCreation env config server =
     (case cfg_database config of
        None \<Rightarrow> resolve \<lparr>dbo_server = server, dbo_teardown = resolve ()\<rparr>
      | Some database \<Rightarrow> DatabaseStrategy_run env database server)"

definition shouldRunMigration ::
  "'w Collaborators \<Rightarrow> PluginConfig \<Rightarrow> Server \<Rightarrow> (MigrationOutput, 'w) async" where
  "shouldRunMigration env config server =
     (case cfg_migrate config of
        None \<Rightarrow> resolve \<lparr>mig_results = []\<rparr>
      | Some migrate \<Rightarrow>
          (case mig_strategy migrate of
             SQL \<Rightarrow> SqlMigrationStrategy_run env migrate server
           | UnknownMigrationStrategy tag \<Rightarrow>
               assertNever (''Unknown migration strategy: '' @ tag)))"

definition shouldRunSeed ::
  "'w Collaborators \<Rightarrow> PluginConfig \<Rightarrow> Server \<Rightarrow> (SeedOutput, 'w) async" where
  "shouldRunSeed env config server =
     (case cfg_seed config of
        None \<Rightarrow> resolve \<lparr>seed_results = []\<rparr>
      | Some seed \<Rightarrow> SeedStrategy_run env seed server)"

text \<open>
  The server phase of \<^verbatim>\<open>#setup\<close>: the \<^verbatim>\<open>instanceof\<close> test and the two calls it
  chooses between.
\<close>

definition setupServer ::
  "'w Collaborators \<Rightarrow> PluginConfig \<Rightarrow> ((Server, 'w) PluginInstance, 'w) async" where
  "setupServer env config =
     (case cfg_server config of
        IsServer server \<Rightarrow> setupExistingDatabaseServer env server
      | IsConfig serverConfig \<Rightarrow> setupNewDatabaseServer env serverConfig)"

text \<open>
  \<^verbatim>\<open>#setup\<close>, named \<open>setup_plugin\<close> here. The object literal it returns is evaluated in the order it is written:
  the composite teardown is built, then the migration is awaited, then the seed.
\<close>

definition setup_plugin ::
  "'w Collaborators \<Rightarrow> PluginConfig \<Rightarrow> ((PluginResult, 'w) PluginInstance, 'w) async" where
  "setup_plugin env config =
     await (setupServer env config) (\<lambda>setup.
       let teardown = inst_teardown setup in
       await (Server_init env (inst_output setup)) (\<lambda>_.
         await (shouldRunDatabaseCreation env config (inst_output setup)) (\<lambda>dbo.
           let server = dbo_server dbo;
               teardownDatabase = dbo_teardown dbo;
               composite = buildTeardown [teardownDatabase, teardown]
           in await (shouldRunMigration env config server) (\<lambda>migrate.
                await (shouldRunSeed env config server) (\<lambda>seed.
                  resolve \<lparr>inst_teardown = composite,
                           inst_output = \<lparr>res_server = server, res_migrate = migrate,
                                          res_seed = seed\<rparr>\<rparr>)))))"

subsection \<open>What a caller holds after \<^verbatim>\<open>#setup\<close>\<close>

text \<open>
  The promise of \<^verbatim>\<open>#setup\<close> either resolves to the instance, whose teardown the caller
  can then invoke, or rejects with the thrown value and nothing else: the local
  variables of the call are gone with it.
\<close>

definition returned_teardown ::
  "(error + ('a, 'w) PluginInstance) \<times> 'w \<Rightarrow> (unit, 'w) async option" where
  "returned_teardown outcome =
     (case fst outcome of Inl e \<Rightarrow> None | Inr inst \<Rightarrow> Some (inst_teardown inst))"



subsection \<open>Recording collaborators\<close>

text \<open>
  To speak about which collaborator is called, with what, and in which order, a
  collaborator is wrapped so that it keeps a journal: the world becomes a pair of the
  journal and the world of the wrapped collaborator, which cannot see the journal. A
  call leaves \<open>Begin\<close> when it starts and \<open>End\<close> when its promise settles. The teardown
  closures that the server and database strategies hand out are wrapped as well. The
  methods of the factory are run unchanged on the wrapped collaborators.
\<close>

datatype call =
    ConnectionSetup Server
  | DockerSetup DockerServerStrategyConfig
  | Init Server
  | DatabaseRun DatabaseConfig Server
  | MigrationRun MigrationConfig Server
  | SeedRun SeedConfig Server
  | ServerTeardown
  | DatabaseTeardown
  | TeardownAction nat

datatype event = Begin call | End call

definition traced :: "call \<Rightarrow> ('a \<Rightarrow> 'b) \<Rightarrow> ('a, 'w) async \<Rightarrow> ('b, event list \<times> 'w) async" where
  "traced c f m = (\<lambda>(log, w). case m w of (r, w') \<Rightarrow> (map_sum id f r, (log @ [Begin c, End c], w')))"

definition traced_instance ::
  "('a, 'w) PluginInstance \<Rightarrow> ('a, event list \<times> 'w) PluginInstance" where
  "traced_instance inst =
     \<lparr>inst_teardown = traced ServerTeardown id (inst_teardown inst),
      inst_output = inst_output inst\<rparr>"

definition traced_output :: "'w DatabaseOutput \<Rightarrow> (event list \<times> 'w) DatabaseOutput" where
  "traced_output dbo =
     \<lparr>dbo_server = dbo_server dbo,
      dbo_teardown = traced DatabaseTeardown id (dbo_teardown dbo)\<rparr>"

definition instrument :: "'w Collaborators \<Rightarrow> (event list \<times> 'w) Collaborators" where
  "instrument env =
     \<lparr>Math_random_string =
        (\<lambda>(log, w). case Math_random_string env w of (s, w') \<Rightarrow> (s, (log, w'))),
      ConnectionStrategy_setup =
        (\<lambda>s. traced (ConnectionSetup s) traced_instance (ConnectionStrategy_setup env s)),
      DockerServerStrategy_setup =
        (\<lambda>c. traced (DockerSetup c) traced_instance (DockerServerStrategy_setup env c)),
      Server_init = (\<lambda>s. traced (Init s) id (Server_init env s)),
      DatabaseStrategy_run =
        (\<lambda>c s. traced (DatabaseRun c s) traced_output (DatabaseStrategy_run env c s)),
      SqlMigrationStrategy_run =
        (\<lambda>c s. traced (MigrationRun c s) id (SqlMigrationStrategy_run env c s)),
      SeedStrategy_run = (\<lambda>c s. traced (SeedRun c s) id (SeedStrategy_run env c s))\<rparr>"

definition journal :: "'r \<times> event list \<times> 'w \<Rightarrow> event list" where
  "journal outcome = fst (snd outcome)"

text \<open>
  A recorded run and a plain run have the same outcome when they reject with the same
  error or resolve to values with the same data (closures aside, which differ by the
  recording), and leave the same world.
\<close>

definition same_outcome ::
  "('a \<Rightarrow> 'c) \<Rightarrow> ('b \<Rightarrow> 'c) \<Rightarrow> (error + 'a) \<times> event list \<times> 'w
     \<Rightarrow> (error + 'b) \<times> 'w \<Rightarrow> bool" where
  "same_outcome f g recorded plain \<longleftrightarrow>
     map_sum id f (fst recorded) = map_sum id g (fst plain) \<and> snd (snd recorded) = snd plain"

text \<open>The configurations a journal shows the Docker strategy was constructed with.\<close>

fun docker_configs :: "event list \<Rightarrow> DockerServerStrategyConfig list" where
  "docker_configs [] = []"
| "docker_configs (Begin (DockerSetup c) # es) = c # docker_configs es"
| "docker_configs (e # es) = docker_configs es"

text \<open>The actions of a list, the k-th recording itself as \<open>TeardownAction k\<close>.\<close>

fun labelled :: "nat \<Rightarrow> (unit, 'w) async list \<Rightarrow> (unit, event list \<times> 'w) async list" where
  "labelled k [] = []"
| "labelled k (a # as) = traced (TeardownAction k) id a # labelled (Suc k) as"

subsection \<open>The pipeline, as the specification draws it\<close>

datatype phase =
  ServerSetupPhase | ServerInitPhase | DatabaseSetupPhase | MigrationRunPhase | SeedRunPhase
  | TeardownPhase

datatype mark = Started phase | Completed phase

fun phase_of :: "call \<Rightarrow> phase" where
  "phase_of (ConnectionSetup s) = ServerSetupPhase"
| "phase_of (DockerSetup c) = ServerSetupPhase"
| "phase_of (Init s) = ServerInitPhase"
| "phase_of (DatabaseRun c s) = DatabaseSetupPhase"
| "phase_of (MigrationRun c s) = MigrationRunPhase"
| "phase_of (SeedRun c s) = SeedRunPhase"
| "phase_of ServerTeardown = TeardownPhase"
| "phase_of DatabaseTeardown = TeardownPhase"
| "phase_of (TeardownAction k) = TeardownPhase"

fun mark_of :: "event \<Rightarrow> mark" where
  "mark_of (Begin c) = Started (phase_of c)"
| "mark_of (End c) = Completed (phase_of c)"

text \<open>
  The fixed sequence: server setup, server initialisation, then each optional phase
  that the configuration asks for.
\<close>

definition plan :: "PluginConfig \<Rightarrow> phase list" where
  "plan config =
     [ServerSetupPhase, ServerInitPhase]
     @ (case cfg_database config of None \<Rightarrow> [] | Some d \<Rightarrow> [DatabaseSetupPhase])
     @ (case cfg_migrate config of None \<Rightarrow> [] | Some m \<Rightarrow> [MigrationRunPhase])
     @ (case cfg_seed config of None \<Rightarrow> [] | Some s \<Rightarrow> [SeedRunPhase])"

text \<open>Each phase of a plan started and completed before the next one starts.\<close>

fun one_after_another :: "phase list \<Rightarrow> mark list" where
  "one_after_another [] = []"
| "one_after_another (p # ps) = Started p # Completed p # one_after_another ps"

subsection \<open>Example collaborators\<close>

text \<open>
  Modelled from the spec: \<^verbatim>\<open>ConnectionStrategy.setup\<close>, of the module
  \<^verbatim>\<open>server_connection.ts\<close>, which is not among the sources. The spec says that it
  wraps the caller's server "without side effects beyond initialization" and that "its
  TeardownAction is a no-op": it resolves to the supplied server with a teardown that
  does nothing.
\<close>

definition ConnectionStrategy_setup_spec ::
  "Server \<Rightarrow> ((Server, 'w) PluginInstance, 'w) async" where
  "ConnectionStrategy_setup_spec server =
     resolve \<lparr>inst_teardown = resolve (), inst_output = server\<rparr>"

text \<open>
  Modelled from the spec: \<^verbatim>\<open>DatabaseStrategy.run\<close>, of the module \<^verbatim>\<open>database.ts\<close>,
  which is not among the sources. The spec says that it must "create a new logical
  database and return a handle bound to it plus a TeardownAction that drops it". Here
  the world is a list of the statements and commands issued, and the new handle is
  the object after the given one.
\<close>

definition DatabaseStrategy_run_spec ::
  "DatabaseConfig \<Rightarrow> Server \<Rightarrow> (string list DatabaseOutput, string list) async" where
  "DatabaseStrategy_run_spec config server =
     (\<lambda>w. (Inr \<lparr>dbo_server = (case server of Server n \<Rightarrow> Server (Suc n)),
                dbo_teardown = (\<lambda>v. (Inr (), v @ [''DROP DATABASE'']))\<rparr>,
           w @ [''CREATE DATABASE'']))"

text \<open>
  A set of collaborators that all succeed, over a world that lists what was done to
  it, and one whose migration throws on its second unit.
\<close>

definition example_env :: "string list Collaborators" where
  "example_env =
     \<lparr>Math_random_string = (\<lambda>w. (''k3x9'', w)),
      ConnectionStrategy_setup = ConnectionStrategy_setup_spec,
      DockerServerStrategy_setup =
        (\<lambda>c w. (Inr \<lparr>inst_teardown = (\<lambda>v. (Inr (), v @ [''docker stop''])),
                     inst_output = Server 1\<rparr>,
                w @ [''docker run''])),
      Server_init = (\<lambda>s w. (Inr (), w @ [''connect''])),
      DatabaseStrategy_run = DatabaseStrategy_run_spec,
      SqlMigrationStrategy_run =
        (\<lambda>c s w. (Inr \<lparr>mig_results = [''001.sql'', ''002.sql'']\<rparr>,
                  w @ [''apply 001.sql'', ''apply 002.sql''])),
      SeedStrategy_run =
        (\<lambda>c s w. (Inr \<lparr>seed_results = map fst c\<rparr>, w @ map (\<lambda>t. ''insert into '' @ fst t) c))\<rparr>"

definition failing_migration_env :: "string list Collaborators" where
  "failing_migration_env =
     example_env\<lparr>SqlMigrationStrategy_run :=
       (\<lambda>c s w. (Inl (Error ''002.sql failed''), w @ [''apply 001.sql'']))\<rparr>"

definition docker_config :: ServerConfig where
  "docker_config =
     \<lparr>srv_strategy = DOCKER, srv_port = None, srv_user = None, srv_password = None,
      srv_databaseName = None, srv_databaseNamePrefix = None,
      srv_databaseServerNamePrefix = None, srv_version = None\<rparr>"

definition full_config :: PluginConfig where
  "full_config =
     \<lparr>cfg_server = IsConfig docker_config,
      cfg_database = Some \<lparr>db_prefix = Some ''custom''\<rparr>,
      cfg_migrate = Some \<lparr>mig_strategy = SQL, mig_root = ''migrations''\<rparr>,
      cfg_seed = Some [(''User'', [[(''email'', ''email 1''), (''name'', ''name 1'')]])]\<rparr>"

definition server_only_config :: PluginConfig where
  "server_only_config =
     \<lparr>cfg_server = IsConfig docker_config, cfg_database = None, cfg_migrate = None,
      cfg_seed = None\<rparr>"

definition existing_server_config :: PluginConfig where
  "existing_server_config =
     \<lparr>cfg_server = IsServer (Server 7), cfg_database = None, cfg_migrate = None,
      cfg_seed = None\<rparr>"

definition existing_server_database_config :: PluginConfig where
  "existing_server_database_config =
     existing_server_config\<lparr>cfg_database := Some \<lparr>db_prefix = Some ''custom''\<rparr>\<rparr>"

definition unknown_server_config :: ServerConfig where
  "unknown_server_config = docker_config\<lparr>srv_strategy := UnknownServerStrategy ''podman''\<rparr>"

definition unknown_server_tag_config :: PluginConfig where
  "unknown_server_tag_config = full_config\<lparr>cfg_server := IsConfig unknown_server_config\<rparr>"

definition unknown_migration_config :: MigrationConfig where
  "unknown_migration_config =
     \<lparr>mig_strategy = UnknownMigrationStrategy ''knex'', mig_root = ''migrations''\<rparr>"

definition unknown_migration_tag_config :: PluginConfig where
  "unknown_migration_tag_config = full_config\<lparr>cfg_migrate := Some unknown_migration_config\<rparr>"

definition specified_config :: ServerConfig where
  "specified_config =
     \<lparr>srv_strategy = DOCKER, srv_port = Some 5432, srv_user = Some ''admin'',
      srv_password = Some ''secret'', srv_databaseName = Some ''orders'',
      srv_databaseNamePrefix = Some ''ignored'', srv_databaseServerNamePrefix = Some ''pg'',
      srv_version = Some ''15''\<rparr>"

text \<open>
  An optional string counts as given when it is present and not empty, which is when
  \<^verbatim>\<open>||\<close> keeps it.
\<close>

definition non_empty :: "string option \<Rightarrow> string option" where
  "non_empty a = (case a of None \<Rightarrow> None | Some s \<Rightarrow> if s = [] then None else Some s)"

text \<open>The journal entries of \<open>n\<close> labelled actions, from the \<open>k\<close>-th on.\<close>

definition tags :: "nat \<Rightarrow> nat \<Rightarrow> event list" where
  "tags k n =
     concat (map (\<lambda>i. [Begin (TeardownAction i), End (TeardownAction i)]) [k..<k + n])"

subsection \<open>Calls and the promises they return\<close>

text \<open>
  In the model above a collaborator's call and the settling of the promise it returns
  are one step. To speak about whether a promise has settled before the next call is
  made, the two are separated here. A call runs its synchronous part and either throws
  or returns a promise; the promise is what remains to be done until it settles.
  \<open>awaited c\<close> is \<^verbatim>\<open>await c\<close> for a call expression \<open>c\<close>: the call is made, then
  the promise it returned is run until it settles.

  The private methods of the factory are not \<^verbatim>\<open>async\<close>: each returns the promise
  of the strategy it delegates to, or a plain value (which \<^verbatim>\<open>await\<close> takes as a
  promise already resolved), or throws. Only \<^verbatim>\<open>#setup\<close> awaits. The definitions
  with the suffix \<open>_call\<close> are those methods as calls, and \<open>setup_plugin_stepwise\<close>
  is \<^verbatim>\<open>#setup\<close> with every \<^verbatim>\<open>await\<close> written out; \<open>setup_plugin_stepwise_eq\<close>
  below shows that it is \<open>setup_plugin\<close>.
\<close>

type_synonym ('a, 'w) invocation = "'w \<Rightarrow> (error + ('a, 'w) async) \<times> 'w"

definition awaited :: "('a, 'w) invocation \<Rightarrow> ('a, 'w) async" where
  "awaited c = (\<lambda>w. case c w of (Inl e, w') \<Rightarrow> (Inl e, w') | (Inr promise, w') \<Rightarrow> promise w')"

record 'w Strategies =
  call_Math_random_string :: "'w \<Rightarrow> string \<times> 'w"
  call_ConnectionStrategy_setup :: "Server \<Rightarrow> ((Server, 'w) PluginInstance, 'w) invocation"
  call_DockerServerStrategy_setup ::
    "DockerServerStrategyConfig \<Rightarrow> ((Server, 'w) PluginInstance, 'w) invocation"
  call_Server_init :: "Server \<Rightarrow> (unit, 'w) invocation"
  call_DatabaseStrategy_run :: "DatabaseConfig \<Rightarrow> Server \<Rightarrow> ('w DatabaseOutput, 'w) invocation"
  call_SqlMigrationStrategy_run :: "MigrationConfig \<Rightarrow> Server \<Rightarrow> (MigrationOutput, 'w) invocation"
  call_SeedStrategy_run :: "SeedConfig \<Rightarrow> Server \<Rightarrow> (SeedOutput, 'w) invocation"

definition setupExistingDatabaseServer_call ::
  "'w Strategies \<Rightarrow> Server \<Rightarrow> ((Server, 'w) PluginInstance, 'w) invocation" where
  "setupExistingDatabaseServer_call env server = call_ConnectionStrategy_setup env server"

definition setupNewDatabaseServer_call ::
  "'w Strategies \<Rightarrow> ServerConfig \<Rightarrow> ((Server, 'w) PluginInstance, 'w) invocation" where
  "setupNewDatabaseServer_call env config = (\<lambda>w0.
     let (suffix, w1) = call_Math_random_string env w0;
         database = or_else (srv_databaseName config)
           (or_else (srv_databaseNamePrefix config) ''postgres'' @ ''-'' @ suffix);
         serverName = or_else (srv_databaseServerNamePrefix config) ''postgres'' @ ''-'' @ suffix;
         port = nullish (srv_port config) 0;
         (user, w2) = (case srv_user config of
                         Some u \<Rightarrow> (u, w1)
                       | None \<Rightarrow> call_Math_random_string env w1);
         (password, w3) = (case srv_password config of
                             Some p \<Rightarrow> (p, w2)
                           | None \<Rightarrow> call_Math_random_string env w2);
         version = or_else (srv_version config) ''latest''
     in case srv_strategy config of
          DOCKER \<Rightarrow>
            call_DockerServerStrategy_setup env
              \<lparr>dkr_serverName = serverName, dkr_port = port, dkr_user = user,
               dkr_password = password, dkr_database = database, dkr_version = version\<rparr> w3
        | UnknownServerStrategy tag \<Rightarrow> assertNever (''Unknown strategy: '' @ tag) w3)"

definition shouldRunDatabaseCreation_call ::
  "'w Strategies \<Rightarrow> PluginConfig \<Rightarrow> Server \<Rightarrow> ('w DatabaseOutput, 'w) invocation" where
  "shouldRunDatabaseCreation_call env config server =
     (case cfg_database config of
        None \<Rightarrow> resolve (resolve \<lparr>dbo_server = server, dbo_teardown = resolve ()\<rparr>)
      | Some database \<Rightarrow> call_DatabaseStrategy_run env database server)"

definition shouldRunMigration_call ::
  "'w Strategies \<Rightarrow> PluginConfig \<Rightarrow> Server \<Rightarrow> (MigrationOutput, 'w) invocation" where
  "shouldRunMigration_call env config server =
     (case cfg_migrate config of
        None \<Rightarrow> resolve (resolve \<lparr>mig_results = []\<rparr>)
      | Some migrate \<Rightarrow>
          (case mig_strategy migrate of
             SQL \<Rightarrow> call_SqlMigrationStrategy_run env migrate server
           | UnknownMigrationStrategy tag \<Rightarrow>
               assertNever (''Unknown migration strategy: '' @ tag)))"

definition shouldRunSeed_call ::
  "'w Strategies \<Rightarrow> PluginConfig \<Rightarrow> Server \<Rightarrow> (SeedOutput, 'w) invocation" where
  "shouldRunSeed_call env config server =
     (case cfg_seed config of
        None \<Rightarrow> resolve (resolve \<lparr>seed_results = []\<rparr>)
      | Some seed \<Rightarrow> call_SeedStrategy_run env seed server)"

definition setupServer_call ::
  "'w Strategies \<Rightarrow> PluginConfig \<Rightarrow> ((Server, 'w) PluginInstance, 'w) invocation" where
  "setupServer_call env config =
     (case cfg_server config of
        IsServer server \<Rightarrow> setupExistingDatabaseServer_call env server
      | IsConfig serverConfig \<Rightarrow> setupNewDatabaseServer_call env serverConfig)"

definition setup_plugin_stepwise ::
  "'w Strategies \<Rightarrow> PluginConfig \<Rightarrow> ((PluginResult, 'w) PluginInstance, 'w) async" where
  "setup_plugin_stepwise env config =
     await (awaited (setupServer_call env config)) (\<lambda>setup.
       let teardown = inst_teardown setup in
       await (awaited (call_Server_init env (inst_output setup))) (\<lambda>_.
         await (awaited (shouldRunDatabaseCreation_call env config (inst_output setup))) (\<lambda>dbo.
           let server = dbo_server dbo;
               teardownDatabase = dbo_teardown dbo;
               composite = buildTeardown [teardownDatabase, teardown]
           in await (awaited (shouldRunMigration_call env config server)) (\<lambda>migrate.
                await (awaited (shouldRunSeed_call env config server)) (\<lambda>seed.
                  resolve \<lparr>inst_teardown = composite,
                           inst_output = \<lparr>res_server = server, res_migrate = migrate,
                                          res_seed = seed\<rparr>\<rparr>)))))"

text \<open>
  Strategies seen as collaborators, each call awaited at once; and collaborators seen
  as strategies whose calls do nothing before they return their promise.
\<close>

definition collapse :: "'w Strategies \<Rightarrow> 'w Collaborators" where
  "collapse env =
     \<lparr>Math_random_string = call_Math_random_string env,
      ConnectionStrategy_setup = (\<lambda>s. awaited (call_ConnectionStrategy_setup env s)),
      DockerServerStrategy_setup = (\<lambda>c. awaited (call_DockerServerStrategy_setup env c)),
      Server_init = (\<lambda>s. awaited (call_Server_init env s)),
      DatabaseStrategy_run = (\<lambda>c s. awaited (call_DatabaseStrategy_run env c s)),
      SqlMigrationStrategy_run = (\<lambda>c s. awaited (call_SqlMigrationStrategy_run env c s)),
      SeedStrategy_run = (\<lambda>c s. awaited (call_SeedStrategy_run env c s))\<rparr>"

definition as_calls :: "'w Collaborators \<Rightarrow> 'w Strategies" where
  "as_calls env =
     \<lparr>call_Math_random_string = Math_random_string env,
      call_ConnectionStrategy_setup = (\<lambda>s. resolve (ConnectionStrategy_setup env s)),
      call_DockerServerStrategy_setup = (\<lambda>c. resolve (DockerServerStrategy_setup env c)),
      call_Server_init = (\<lambda>s. resolve (Server_init env s)),
      call_DatabaseStrategy_run = (\<lambda>c s. resolve (DatabaseStrategy_run env c s)),
      call_SqlMigrationStrategy_run = (\<lambda>c s. resolve (SqlMigrationStrategy_run env c s)),
      call_SeedStrategy_run = (\<lambda>c s. resolve (SeedStrategy_run env c s))\<rparr>"

subsection \<open>Recording calls and settlings\<close>

text \<open>
  A recording strategy notes \<open>Called\<close> when it is called, and its promise notes
  \<open>Resolved\<close> or \<open>Rejected\<close> when it is run to its end. A call that throws before
  it returns a promise notes both at once. The closures in the results are carried
  over to the world with the journal and note nothing.
\<close>

datatype step = Called call | Resolved call | Rejected call

definition settled_as :: "call \<Rightarrow> error + 'a \<Rightarrow> step" where
  "settled_as c r = (case r of Inl e \<Rightarrow> Rejected c | Inr x \<Rightarrow> Resolved c)"

definition lifted :: "('a, 'w) async \<Rightarrow> ('a, step list \<times> 'w) async" where
  "lifted m = (\<lambda>(log, w). case m w of (r, w') \<Rightarrow> (r, (log, w')))"

definition lifted_instance ::
  "('a, 'w) PluginInstance \<Rightarrow> ('a, step list \<times> 'w) PluginInstance" where
  "lifted_instance inst =
     \<lparr>inst_teardown = lifted (inst_teardown inst), inst_output = inst_output inst\<rparr>"

definition lifted_output :: "'w DatabaseOutput \<Rightarrow> (step list \<times> 'w) DatabaseOutput" where
  "lifted_output dbo =
     \<lparr>dbo_server = dbo_server dbo, dbo_teardown = lifted (dbo_teardown dbo)\<rparr>"

definition recording ::
  "call \<Rightarrow> ('a \<Rightarrow> 'b) \<Rightarrow> ('a, 'w) invocation \<Rightarrow> ('b, step list \<times> 'w) invocation" where
  "recording c f m = (\<lambda>(log, w). case m w of
       (Inl e, w') \<Rightarrow> (Inl e, (log @ [Called c, Rejected c], w'))
     | (Inr promise, w') \<Rightarrow>
         (Inr (\<lambda>(log', v). case promise v of
                 (r, v') \<Rightarrow> (map_sum id f r, (log' @ [settled_as c r], v'))),
          (log @ [Called c], w')))"

definition record_steps :: "'w Strategies \<Rightarrow> (step list \<times> 'w) Strategies" where
  "record_steps env =
     \<lparr>call_Math_random_string =
        (\<lambda>(log, w). case call_Math_random_string env w of (s, w') \<Rightarrow> (s, (log, w'))),
      call_ConnectionStrategy_setup =
        (\<lambda>s. recording (ConnectionSetup s) lifted_instance (call_ConnectionStrategy_setup env s)),
      call_DockerServerStrategy_setup =
        (\<lambda>c. recording (DockerSetup c) lifted_instance (call_DockerServerStrategy_setup env c)),
      call_Server_init = (\<lambda>s. recording (Init s) id (call_Server_init env s)),
      call_DatabaseStrategy_run =
        (\<lambda>c s. recording (DatabaseRun c s) lifted_output (call_DatabaseStrategy_run env c s)),
      call_SqlMigrationStrategy_run =
        (\<lambda>c s. recording (MigrationRun c s) id (call_SqlMigrationStrategy_run env c s)),
      call_SeedStrategy_run =
        (\<lambda>c s. recording (SeedRun c s) id (call_SeedStrategy_run env c s))\<rparr>"

definition steps :: "'r \<times> step list \<times> 'w \<Rightarrow> step list" where
  "steps outcome = fst (snd outcome)"

text \<open>
  A journal is sequential for a plan when it goes through the phases of the plan in
  order, calls each phase only after the one before has resolved, and ends with the
  first phase that rejects.
\<close>

datatype progress = Calls phase | Resolves phase | Rejects phase

fun progress_of :: "step \<Rightarrow> progress" where
  "progress_of (Called c) = Calls (phase_of c)"
| "progress_of (Resolved c) = Resolves (phase_of c)"
| "progress_of (Rejected c) = Rejects (phase_of c)"

fun all_resolved :: "phase list \<Rightarrow> progress list" where
  "all_resolved [] = []"
| "all_resolved (p # ps) = Calls p # Resolves p # all_resolved ps"

fun sequential :: "phase list \<Rightarrow> progress list \<Rightarrow> bool" where
  "sequential ps [] = True"
| "sequential (p # ps) (Calls q # Resolves q' # ms) = (q = p \<and> q' = p \<and> sequential ps ms)"
| "sequential (p # ps) [Calls q, Rejects q'] = (q = p \<and> q' = p)"
| "sequential ps ms = False"

text \<open>
  The only rejections that come from the factory itself are the two dispatches on an
  unrecognised tag. This gives the phases that are behind the setup when it reaches
  the first of them, if there is one.
\<close>

definition phases_before_unknown_tag :: "PluginConfig \<Rightarrow> phase list option" where
  "phases_before_unknown_tag config =
     (let at_migration =
            (case cfg_migrate config of
               None \<Rightarrow> None
             | Some migrate \<Rightarrow>
                 (case mig_strategy migrate of
                    SQL \<Rightarrow> None
                  | UnknownMigrationStrategy tag \<Rightarrow>
                      Some ([ServerSetupPhase, ServerInitPhase]
                            @ (case cfg_database config of
                                 None \<Rightarrow> []
                               | Some d \<Rightarrow> [DatabaseSetupPhase]))))
      in case cfg_server config of
           IsServer server \<Rightarrow> at_migration
         | IsConfig serverConfig \<Rightarrow>
             (case srv_strategy serverConfig of
                DOCKER \<Rightarrow> at_migration
              | UnknownServerStrategy tag \<Rightarrow> Some []))"

text \<open>
  Two variants of \<^verbatim>\<open>#setup\<close>, for contrast; they are not the code. The first
  starts the seed before the promise of the migration has settled and awaits that
  promise last. The second goes on to the seed whatever the migration settled to.
\<close>

definition setup_without_await ::
  "'w Strategies \<Rightarrow> PluginConfig \<Rightarrow> ((PluginResult, 'w) PluginInstance, 'w) async" where
  "setup_without_await env config =
     await (awaited (setupServer_call env config)) (\<lambda>setup.
       let teardown = inst_teardown setup in
       await (awaited (call_Server_init env (inst_output setup))) (\<lambda>_.
         await (awaited (shouldRunDatabaseCreation_call env config (inst_output setup))) (\<lambda>dbo.
           let server = dbo_server dbo;
               teardownDatabase = dbo_teardown dbo;
               composite = buildTeardown [teardownDatabase, teardown]
           in await (shouldRunMigration_call env config server) (\<lambda>migrate_promise.
                await (awaited (shouldRunSeed_call env config server)) (\<lambda>seed.
                  await migrate_promise (\<lambda>migrate.
                  resolve \<lparr>inst_teardown = composite,
                           inst_output = \<lparr>res_server = server, res_migrate = migrate,
                                          res_seed = seed\<rparr>\<rparr>))))))"

definition setup_ignoring_rejection ::
  "'w Strategies \<Rightarrow> PluginConfig \<Rightarrow> ((PluginResult, 'w) PluginInstance, 'w) async" where
  "setup_ignoring_rejection env config =
     await (awaited (setupServer_call env config)) (\<lambda>setup.
       let teardown = inst_teardown setup in
       await (awaited (call_Server_init env (inst_output setup))) (\<lambda>_.
         await (awaited (shouldRunDatabaseCreation_call env config (inst_output setup))) (\<lambda>dbo.
           let server = dbo_server dbo;
               teardownDatabase = dbo_teardown dbo;
               composite = buildTeardown [teardownDatabase, teardown]
           in (\<lambda>w. case awaited (shouldRunMigration_call env config server) w of (r, w') \<Rightarrow>
                await (awaited (shouldRunSeed_call env config server)) (\<lambda>seed.
                  resolve \<lparr>inst_teardown = composite,
                           inst_output = \<lparr>res_server = server, res_migrate = \<lparr>mig_results = []\<rparr>,
                                          res_seed = seed\<rparr>\<rparr>) w'))))"

section \<open>Basic facts\<close>

lemmas factory_defs =
  setup_plugin_def setupServer_def setupExistingDatabaseServer_def setupNewDatabaseServer_def
  shouldRunDatabaseCreation_def shouldRunMigration_def shouldRunSeed_def assertNever_def
  await_def resolve_def reject_def or_else_def nullish_def Let_def

lemmas recording_defs =
  instrument_def traced_def traced_instance_def traced_output_def journal_def

lemmas example_defs =
  example_env_def failing_migration_env_def docker_config_def full_config_def
  server_only_config_def existing_server_config_def ConnectionStrategy_setup_spec_def
  DatabaseStrategy_run_spec_def existing_server_database_config_def unknown_server_config_def
  unknown_server_tag_config_def unknown_migration_config_def unknown_migration_tag_config_def
  specified_config_def

lemma await_rejected: "m w = (Inl e, w') \<Longrightarrow> await m k w = (Inl e, w')"
  by (simp add: await_def)

lemma await_Inr_iff:
  "await m k w = (Inr y, w'') \<longleftrightarrow> (\<exists>x w'. m w = (Inr x, w') \<and> k x w' = (Inr y, w''))"
  by (auto simp: await_def split: prod.splits sum.splits)

lemma buildTeardown_append:
  "buildTeardown (as @ bs) w =
     (case buildTeardown as w of
        (Inl e, w') \<Rightarrow> (Inl e, w')
      | (Inr u, w') \<Rightarrow> buildTeardown bs w')"
  by (induction as arbitrary: w) (auto simp: await_def resolve_def split: prod.splits sum.splits)

text \<open>A setup that resolves went through every phase, and each of them resolved.\<close>

lemma setup_plugin_Inr:
  "setup_plugin env config w = (Inr inst, w') \<Longrightarrow>
   \<exists>srv w1 w2 dbo w3 migrate w4 seed.
     setupServer env config w = (Inr srv, w1) \<and>
     Server_init env (inst_output srv) w1 = (Inr (), w2) \<and>
     shouldRunDatabaseCreation env config (inst_output srv) w2 = (Inr dbo, w3) \<and>
     shouldRunMigration env config (dbo_server dbo) w3 = (Inr migrate, w4) \<and>
     shouldRunSeed env config (dbo_server dbo) w4 = (Inr seed, w') \<and>
     inst = \<lparr>inst_teardown = buildTeardown [dbo_teardown dbo, inst_teardown srv],
             inst_output = \<lparr>res_server = dbo_server dbo, res_migrate = migrate,
                            res_seed = seed\<rparr>\<rparr>"
  by (auto simp: setup_plugin_def await_Inr_iff Let_def resolve_def)

subsection \<open>Journals of the recording collaborators\<close>

lemma instrument_simps [simp]:
  "Math_random_string (instrument env) =
     (\<lambda>(log, w). case Math_random_string env w of (s, w') \<Rightarrow> (s, (log, w')))"
  "ConnectionStrategy_setup (instrument env) s =
     traced (ConnectionSetup s) traced_instance (ConnectionStrategy_setup env s)"
  "DockerServerStrategy_setup (instrument env) c =
     traced (DockerSetup c) traced_instance (DockerServerStrategy_setup env c)"
  "Server_init (instrument env) s = traced (Init s) id (Server_init env s)"
  "DatabaseStrategy_run (instrument env) d s =
     traced (DatabaseRun d s) traced_output (DatabaseStrategy_run env d s)"
  "SqlMigrationStrategy_run (instrument env) m s =
     traced (MigrationRun m s) id (SqlMigrationStrategy_run env m s)"
  "SeedStrategy_run (instrument env) sd s = traced (SeedRun sd s) id (SeedStrategy_run env sd s)"
  by (simp_all add: instrument_def)

lemma traced_journal:
  "traced c f m (log, w) = (r, (log', w')) \<Longrightarrow> log' = log @ [Begin c, End c]"
  by (auto simp: traced_def split: prod.splits)

lemma setupNew_journal:
  "setupNewDatabaseServer (instrument env) sc (log, w) = (r, (log', w')) \<Longrightarrow>
   (case srv_strategy sc of
      DOCKER \<Rightarrow> \<exists>c. log' = log @ [Begin (DockerSetup c), End (DockerSetup c)]
    | UnknownServerStrategy t \<Rightarrow> log' = log \<and> r = Inl (Error (''Unknown strategy: '' @ t)))"
  by (auto simp: setupNewDatabaseServer_def assertNever_def reject_def Let_def traced_def
           split: prod.splits option.splits ServerStrategy.splits)

lemma setupServer_journal:
  "setupServer (instrument env) config (log, w) = (r, (log', w')) \<Longrightarrow>
   (\<exists>c. phase_of c = ServerSetupPhase \<and> log' = log @ [Begin c, End c])
   \<or> (log' = log \<and> (\<exists>e. r = Inl e))"
  by (auto simp: setupServer_def setupExistingDatabaseServer_def
           dest!: setupNew_journal traced_journal
           split: ServerOrConfig.splits ServerStrategy.splits)

lemma database_journal:
  "shouldRunDatabaseCreation (instrument env) config s (log, w) = (r, (log', w')) \<Longrightarrow>
   (case cfg_database config of
      None \<Rightarrow> log' = log
    | Some d \<Rightarrow> log' = log @ [Begin (DatabaseRun d s), End (DatabaseRun d s)])"
  by (auto simp: shouldRunDatabaseCreation_def resolve_def dest!: traced_journal
           split: option.splits)

lemma migration_journal:
  "shouldRunMigration (instrument env) config s (log, w) = (r, (log', w')) \<Longrightarrow>
   (case cfg_migrate config of
      None \<Rightarrow> log' = log
    | Some m \<Rightarrow>
        (case mig_strategy m of
           SQL \<Rightarrow> log' = log @ [Begin (MigrationRun m s), End (MigrationRun m s)]
         | UnknownMigrationStrategy t \<Rightarrow>
             log' = log \<and> r = Inl (Error (''Unknown migration strategy: '' @ t))))"
  by (auto simp: shouldRunMigration_def resolve_def assertNever_def reject_def
           dest!: traced_journal split: option.splits MigrationStrategy.splits)

lemma seed_journal:
  "shouldRunSeed (instrument env) config s (log, w) = (r, (log', w')) \<Longrightarrow>
   (case cfg_seed config of
      None \<Rightarrow> log' = log
    | Some sd \<Rightarrow> log' = log @ [Begin (SeedRun sd s), End (SeedRun sd s)])"
  by (auto simp: shouldRunSeed_def resolve_def dest!: traced_journal split: option.splits)

text \<open>
  Whatever the collaborators do, the journal of a setup is a beginning of the plan, and
  the whole plan when the setup resolves. The proof follows the setup phase by phase.
\<close>

lemma setup_journal:
  "\<exists>es. journal (setup_plugin (instrument env) config (log, w)) = log @ es
       \<and> prefix (map mark_of es) (one_after_another (plan config))
       \<and> (\<forall>inst. fst (setup_plugin (instrument env) config (log, w)) = Inr inst
            \<longrightarrow> map mark_of es = one_after_another (plan config))"
proof -
  obtain r1 l1 w1 where s: "setupServer (instrument env) config (log, w) = (r1, (l1, w1))"
    by (metis prod.exhaust)
  show ?thesis
  proof (cases r1)
    case (Inl e)
    with s setupServer_journal [OF s] show ?thesis
      by (auto simp: setup_plugin_def await_def journal_def plan_def)
  next
    case (Inr srv)
    with setupServer_journal [OF s] obtain c
      where c: "phase_of c = ServerSetupPhase" "l1 = log @ [Begin c, End c]"
      by auto
    obtain r2 l2 w2
      where i: "Server_init (instrument env) (inst_output srv) (l1, w1) = (r2, (l2, w2))"
      by (metis prod.exhaust)
    have l2: "l2 = l1 @ [Begin (Init (inst_output srv)), End (Init (inst_output srv))]"
      using i by (auto dest: traced_journal)
    show ?thesis
    proof (cases r2)
      case (Inl e)
      with s Inr i c l2 show ?thesis
        by (auto simp: setup_plugin_def await_def journal_def plan_def)
    next
      case Inr2: (Inr u)
      obtain r3 l3 w3
        where d: "shouldRunDatabaseCreation (instrument env) config (inst_output srv) (l2, w2)
                    = (r3, (l3, w3))"
        by (metis prod.exhaust)
      show ?thesis
      proof (cases r3)
        case (Inl e)
        with s Inr i Inr2 c l2 d database_journal [OF d] show ?thesis
          by (auto simp: setup_plugin_def await_def journal_def plan_def split: option.splits)
      next
        case Inr3: (Inr dbo)
        obtain r4 l4 w4
          where m: "shouldRunMigration (instrument env) config (dbo_server dbo) (l3, w3)
                      = (r4, (l4, w4))"
          by (metis prod.exhaust)
        show ?thesis
        proof (cases r4)
          case (Inl e)
          with s Inr i Inr2 c l2 d Inr3 m database_journal [OF d] migration_journal [OF m]
          show ?thesis
            by (auto simp: setup_plugin_def await_def journal_def plan_def Let_def
                     split: option.splits MigrationStrategy.splits)
        next
          case Inr4: (Inr mo)
          obtain r5 l5 w5
            where sd: "shouldRunSeed (instrument env) config (dbo_server dbo) (l4, w4)
                         = (r5, (l5, w5))"
            by (metis prod.exhaust)
          with s Inr i Inr2 c l2 d Inr3 m Inr4 database_journal [OF d]
            migration_journal [OF m] seed_journal [OF sd]
          show ?thesis
            by (cases r5)
               (auto simp: setup_plugin_def await_def journal_def plan_def Let_def resolve_def
                     split: option.splits MigrationStrategy.splits)
        qed
      qed
    qed
  qed
qed

lemma set_one_after_another:
  "set (one_after_another ps) = Started ` set ps \<union> Completed ` set ps"
  by (induction ps) auto

text \<open>A phase that is not in the plan of a configuration is never started.\<close>

lemma no_phase_no_call:
  assumes "p \<notin> set (plan config)"
  shows "[e \<leftarrow> journal (setup_plugin (instrument env) config ([], w)).
           mark_of e = Started p] = []"
proof -
  from setup_journal [of env config "[]" w] obtain es where
    es: "journal (setup_plugin (instrument env) config ([], w)) = es"
    and p: "prefix (map mark_of es) (one_after_another (plan config))"
    by auto
  from p have "set (map mark_of es) \<subseteq> set (one_after_another (plan config))"
    by (rule set_mono_prefix)
  with assms have "Started p \<notin> set (map mark_of es)"
    by (auto simp: set_one_after_another)
  then show ?thesis
    unfolding es by (force simp: filter_empty_conv image_iff)
qed

subsection \<open>Recording changes nothing else\<close>

text \<open>
  The methods of the factory, run on recording collaborators, reject or resolve as
  they do on the collaborators themselves, with the same data and the same world.
\<close>

lemma traced_run:
  "traced c f m (log, w) = (map_sum id f (fst (m w)), (log @ [Begin c, End c], snd (m w)))"
  by (simp add: traced_def split: prod.splits)

lemma same_outcomeD:
  assumes "same_outcome f g (r', (l, w')) (r, w)"
  shows "w' = w" and "\<And>e. r = Inl e \<Longrightarrow> r' = Inl e"
    and "\<And>x. r = Inr x \<Longrightarrow> \<exists>x'. r' = Inr x' \<and> f x' = g x"
  using assms by (auto simp: same_outcome_def map_sum_def split: sum.splits)

lemma setupNew_sim:
  "same_outcome inst_output inst_output
     (setupNewDatabaseServer (instrument env) sc (log, w)) (setupNewDatabaseServer env sc w)"
  by (cases "srv_user sc"; cases "srv_password sc"; cases "srv_strategy sc")
     (simp_all add: same_outcome_def setupNewDatabaseServer_def Let_def traced_run
        case_prod_beta assertNever_def reject_def traced_instance_def sum.map_comp comp_def
        id_def split: option.splits)

lemma setupServer_sim:
  "same_outcome inst_output inst_output
     (setupServer (instrument env) config (log, w)) (setupServer env config w)"
  using setupNew_sim
  by (cases "cfg_server config")
     (simp_all add: setupServer_def setupExistingDatabaseServer_def traced_run same_outcome_def
        traced_instance_def sum.map_comp comp_def id_def)

lemma init_sim:
  "same_outcome id id (Server_init (instrument env) s (log, w)) (Server_init env s w)"
  by (simp add: traced_run same_outcome_def sum.map_id0)

lemma database_sim:
  "same_outcome dbo_server dbo_server
     (shouldRunDatabaseCreation (instrument env) config s (log, w))
     (shouldRunDatabaseCreation env config s w)"
  by (cases "cfg_database config")
     (simp_all add: shouldRunDatabaseCreation_def resolve_def traced_run same_outcome_def
        traced_output_def sum.map_comp comp_def id_def)

lemma migration_sim:
  "same_outcome id id
     (shouldRunMigration (instrument env) config s (log, w)) (shouldRunMigration env config s w)"
  by (simp add: shouldRunMigration_def resolve_def traced_run same_outcome_def assertNever_def
        reject_def sum.map_id0 split: option.splits MigrationStrategy.splits)

lemma seed_sim:
  "same_outcome id id
     (shouldRunSeed (instrument env) config s (log, w)) (shouldRunSeed env config s w)"
  by (simp add: shouldRunSeed_def resolve_def traced_run same_outcome_def sum.map_id0
        split: option.splits)

lemma await_sim:
  assumes m: "same_outcome f g (m' (log, w)) (m w)"
    and k: "\<And>x' x l v. f x' = g x \<Longrightarrow> same_outcome f2 g2 (k' x' (l, v)) (k x v)"
  shows "same_outcome f2 g2 (await m' k' (log, w)) (await m k w)"
proof -
  obtain r v where p: "m w = (r, v)" by (metis prod.exhaust)
  obtain r' l v' where i: "m' (log, w) = (r', (l, v'))" by (metis prod.exhaust)
  from same_outcomeD [OF m [unfolded p i]] have v: "v' = v"
    and l: "\<And>e. r = Inl e \<Longrightarrow> r' = Inl e"
    and r: "\<And>x. r = Inr x \<Longrightarrow> \<exists>x'. r' = Inr x' \<and> f x' = g x"
    by blast+
  show ?thesis
  proof (cases r)
    case (Inl e)
    with l p i v show ?thesis by (simp add: await_def same_outcome_def)
  next
    case (Inr x)
    with r obtain x' where "r' = Inr x'" "f x' = g x" by blast
    with Inr p i v k show ?thesis by (simp add: await_def)
  qed
qed

lemma setup_sim:
  "same_outcome inst_output inst_output
     (setup_plugin (instrument env) config (log, w)) (setup_plugin env config w)"
  unfolding setup_plugin_def Let_def
proof (rule await_sim, rule setupServer_sim)
  fix srv' :: "(Server, event list \<times> 'a) PluginInstance" and srv :: "(Server, 'a) PluginInstance"
    and l1 w1
  assume "inst_output srv' = inst_output srv"
  then show "same_outcome inst_output inst_output
     (await (Server_init (instrument env) (inst_output srv'))
        (\<lambda>_. await (shouldRunDatabaseCreation (instrument env) config (inst_output srv'))
           (\<lambda>dbo. await (shouldRunMigration (instrument env) config (dbo_server dbo))
              (\<lambda>migrate. await (shouldRunSeed (instrument env) config (dbo_server dbo))
                 (\<lambda>seed. resolve
                    \<lparr>inst_teardown = buildTeardown [dbo_teardown dbo, inst_teardown srv'],
                     inst_output = \<lparr>res_server = dbo_server dbo, res_migrate = migrate,
                                    res_seed = seed\<rparr>\<rparr>)))) (l1, w1))
     (await (Server_init env (inst_output srv))
        (\<lambda>_. await (shouldRunDatabaseCreation env config (inst_output srv))
           (\<lambda>dbo. await (shouldRunMigration env config (dbo_server dbo))
              (\<lambda>migrate. await (shouldRunSeed env config (dbo_server dbo))
                 (\<lambda>seed. resolve
                    \<lparr>inst_teardown = buildTeardown [dbo_teardown dbo, inst_teardown srv],
                     inst_output = \<lparr>res_server = dbo_server dbo, res_migrate = migrate,
                                    res_seed = seed\<rparr>\<rparr>)))) w1)"
    apply (simp only:)
    apply (rule await_sim, rule init_sim)
    apply (rule await_sim, rule database_sim)
    apply (simp only:)
    apply (rule await_sim, rule migration_sim)
    apply (simp only: id_apply)
    apply (rule await_sim, rule seed_sim)
    apply (simp add: same_outcome_def resolve_def)
    done
qed

subsection \<open>Labelled teardown actions\<close>

lemma tags_Suc:
  "tags k (Suc n) = Begin (TeardownAction k) # End (TeardownAction k) # tags (Suc k) n"
  by (simp add: tags_def upt_rec)

lemma labelled_append: "labelled k (as @ bs) = labelled k as @ labelled (k + length as) bs"
  by (induction as arbitrary: k) auto

lemma labelled_all_resolve:
  "buildTeardown as w = (Inr (), w1) \<Longrightarrow>
   buildTeardown (labelled k as) (log, w) = (Inr (), (log @ tags k (length as), w1))"
proof (induction as arbitrary: k log w)
  case Nil
  then show ?case by (simp add: resolve_def tags_def)
next
  case (Cons a as)
  from Cons.prems obtain w'
    where a: "a w = (Inr (), w')" and rest: "buildTeardown as w' = (Inr (), w1)"
    by (auto simp: await_Inr_iff)
  show ?case
    using Cons.IH [OF rest, of "Suc k" "log @ [Begin (TeardownAction k), End (TeardownAction k)]"] a
    by (simp add: await_def traced_def tags_Suc)
qed

subsection \<open>The stepwise model is the model\<close>

lemma awaited_resolve [simp]: "awaited (resolve m) = m"
  by (simp add: awaited_def resolve_def)

lemma collapse_as_calls: "collapse (as_calls env) = env"
  by (simp add: collapse_def as_calls_def)

lemma collapse_simps [simp]:
  "Math_random_string (collapse env) = call_Math_random_string env"
  "ConnectionStrategy_setup (collapse env) s = awaited (call_ConnectionStrategy_setup env s)"
  "DockerServerStrategy_setup (collapse env) c = awaited (call_DockerServerStrategy_setup env c)"
  "Server_init (collapse env) s = awaited (call_Server_init env s)"
  "DatabaseStrategy_run (collapse env) d s = awaited (call_DatabaseStrategy_run env d s)"
  "SqlMigrationStrategy_run (collapse env) m s = awaited (call_SqlMigrationStrategy_run env m s)"
  "SeedStrategy_run (collapse env) sd s = awaited (call_SeedStrategy_run env sd s)"
  by (simp_all add: collapse_def)

lemma awaited_setupNew:
  "awaited (setupNewDatabaseServer_call env sc) = setupNewDatabaseServer (collapse env) sc"
  by (rule ext; cases "srv_user sc"; cases "srv_password sc"; cases "srv_strategy sc")
     (simp_all add: awaited_def setupNewDatabaseServer_call_def setupNewDatabaseServer_def
        Let_def assertNever_def reject_def split: prod.splits)

lemma awaited_setupServer:
  "awaited (setupServer_call env config) = setupServer (collapse env) config"
  by (cases "cfg_server config")
     (simp_all add: setupServer_call_def setupServer_def awaited_setupNew
        setupExistingDatabaseServer_call_def setupExistingDatabaseServer_def)

lemma awaited_database:
  "awaited (shouldRunDatabaseCreation_call env config s)
     = shouldRunDatabaseCreation (collapse env) config s"
  by (simp add: shouldRunDatabaseCreation_call_def shouldRunDatabaseCreation_def
        split: option.splits)

lemma awaited_assertNever: "awaited (assertNever m) = assertNever m"
  by (rule ext) (simp add: awaited_def assertNever_def reject_def)

lemma awaited_migration:
  "awaited (shouldRunMigration_call env config s) = shouldRunMigration (collapse env) config s"
  by (simp add: shouldRunMigration_call_def shouldRunMigration_def
        awaited_assertNever split: option.splits MigrationStrategy.splits)

lemma awaited_seed:
  "awaited (shouldRunSeed_call env config s) = shouldRunSeed (collapse env) config s"
  by (simp add: shouldRunSeed_call_def shouldRunSeed_def split: option.splits)

lemma setup_plugin_stepwise_eq:
  "setup_plugin_stepwise env config = setup_plugin (collapse env) config"
  by (simp add: setup_plugin_stepwise_def setup_plugin_def awaited_setupServer awaited_database
        awaited_migration awaited_seed)

subsection \<open>Journals of the recording strategies\<close>

lemmas stepwise_defs =
  setup_plugin_stepwise_def setupServer_call_def setupExistingDatabaseServer_call_def
  setupNewDatabaseServer_call_def shouldRunDatabaseCreation_call_def shouldRunMigration_call_def
  shouldRunSeed_call_def awaited_def as_calls_def record_steps_def recording_def settled_as_def
  lifted_def lifted_instance_def lifted_output_def steps_def

lemma record_steps_simps [simp]:
  "call_Math_random_string (record_steps env) =
     (\<lambda>(log, w). case call_Math_random_string env w of (s, w') \<Rightarrow> (s, (log, w')))"
  "call_ConnectionStrategy_setup (record_steps env) s =
     recording (ConnectionSetup s) lifted_instance (call_ConnectionStrategy_setup env s)"
  "call_DockerServerStrategy_setup (record_steps env) c =
     recording (DockerSetup c) lifted_instance (call_DockerServerStrategy_setup env c)"
  "call_Server_init (record_steps env) s = recording (Init s) id (call_Server_init env s)"
  "call_DatabaseStrategy_run (record_steps env) d s =
     recording (DatabaseRun d s) lifted_output (call_DatabaseStrategy_run env d s)"
  "call_SqlMigrationStrategy_run (record_steps env) m s =
     recording (MigrationRun m s) id (call_SqlMigrationStrategy_run env m s)"
  "call_SeedStrategy_run (record_steps env) sd s =
     recording (SeedRun sd s) id (call_SeedStrategy_run env sd s)"
  by (simp_all add: record_steps_def)

lemma awaited_recording:
  "awaited (recording c f m) (log, w) = (r, (log', w')) \<Longrightarrow>
   log' = log @ [Called c, settled_as c r]"
  by (auto simp: awaited_def recording_def settled_as_def map_sum_def
           split: prod.splits sum.splits)

lemma setupNew_steps:
  "awaited (setupNewDatabaseServer_call (record_steps env) sc) (log, w) = (r, (log', w')) \<Longrightarrow>
   (case srv_strategy sc of
      DOCKER \<Rightarrow> \<exists>c. phase_of c = ServerSetupPhase \<and> log' = log @ [Called c, settled_as c r]
    | UnknownServerStrategy t \<Rightarrow> log' = log \<and> r = Inl (Error (''Unknown strategy: '' @ t)))"
  by (cases "srv_user sc"; cases "srv_password sc"; cases "srv_strategy sc")
     (auto simp: setupNewDatabaseServer_call_def Let_def awaited_def recording_def settled_as_def
        assertNever_def reject_def map_sum_def split: prod.splits sum.splits)

lemma setupServer_steps:
  "awaited (setupServer_call (record_steps env) config) (log, w) = (r, (log', w')) \<Longrightarrow>
   (\<exists>c. phase_of c = ServerSetupPhase \<and> log' = log @ [Called c, settled_as c r])
   \<or> (log' = log \<and> (\<exists>e. r = Inl e))"
proof (cases "cfg_server config")
  case (IsServer s)
  assume "awaited (setupServer_call (record_steps env) config) (log, w) = (r, (log', w'))"
  with IsServer have "log' = log @ [Called (ConnectionSetup s), settled_as (ConnectionSetup s) r]"
    by (auto simp: setupServer_call_def setupExistingDatabaseServer_call_def
             dest: awaited_recording)
  then show ?thesis by (intro disjI1 exI [of _ "ConnectionSetup s"]) simp
next
  case (IsConfig sc)
  assume "awaited (setupServer_call (record_steps env) config) (log, w) = (r, (log', w'))"
  with IsConfig
  have "awaited (setupNewDatabaseServer_call (record_steps env) sc) (log, w) = (r, (log', w'))"
    by (simp add: setupServer_call_def)
  from setupNew_steps [OF this] show ?thesis
    by (cases "srv_strategy sc") auto
qed

lemma database_steps:
  "awaited (shouldRunDatabaseCreation_call (record_steps env) config s) (log, w)
     = (r, (log', w')) \<Longrightarrow>
   (case cfg_database config of
      None \<Rightarrow> log' = log \<and> (\<exists>x. r = Inr x)
    | Some d \<Rightarrow> log' = log @ [Called (DatabaseRun d s), settled_as (DatabaseRun d s) r])"
  by (auto simp: shouldRunDatabaseCreation_call_def resolve_def awaited_def
           dest!: awaited_recording [unfolded awaited_def] split: option.splits)

lemma migration_steps:
  "awaited (shouldRunMigration_call (record_steps env) config s) (log, w)
     = (r, (log', w')) \<Longrightarrow>
   (case cfg_migrate config of
      None \<Rightarrow> log' = log \<and> (\<exists>x. r = Inr x)
    | Some m \<Rightarrow>
        (case mig_strategy m of
           SQL \<Rightarrow> log' = log @ [Called (MigrationRun m s), settled_as (MigrationRun m s) r]
         | UnknownMigrationStrategy t \<Rightarrow> log' = log \<and> (\<exists>e. r = Inl e)))"
  by (auto simp: shouldRunMigration_call_def resolve_def assertNever_def awaited_def
           reject_def dest!: awaited_recording [unfolded awaited_def]
           split: option.splits MigrationStrategy.splits)

lemma seed_steps:
  "awaited (shouldRunSeed_call (record_steps env) config s) (log, w) = (r, (log', w')) \<Longrightarrow>
   (case cfg_seed config of
      None \<Rightarrow> log' = log \<and> (\<exists>x. r = Inr x)
    | Some sd \<Rightarrow> log' = log @ [Called (SeedRun sd s), settled_as (SeedRun sd s) r])"
  by (auto simp: shouldRunSeed_call_def resolve_def awaited_def
           dest!: awaited_recording [unfolded awaited_def] split: option.splits)

lemma setupServer_steps_unknown:
  assumes "awaited (setupServer_call (record_steps env) config) (log, w) = (r, (log', w'))"
    and "log' = log"
  shows "\<exists>sc t. cfg_server config = IsConfig sc \<and> srv_strategy sc = UnknownServerStrategy t"
proof (cases "cfg_server config")
  case (IsServer s)
  with assms show ?thesis
    by (auto simp: setupServer_call_def setupExistingDatabaseServer_call_def
             dest: awaited_recording)
next
  case (IsConfig sc)
  with assms(1)
  have "awaited (setupNewDatabaseServer_call (record_steps env) sc) (log, w) = (r, (log', w'))"
    by (simp add: setupServer_call_def)
  from setupNew_steps [OF this] IsConfig assms(2) show ?thesis
    by (cases "srv_strategy sc") auto
qed

lemma settled_as_simps [simp]:
  "settled_as c (Inl e) = Rejected c" "settled_as c (Inr x) = Resolved c"
  by (simp_all add: settled_as_def)

text \<open>Neither variant is sequential, the first when all goes well, the second when the migration throws.\<close>

lemma variants_are_not_sequential:
  "\<not> sequential (plan full_config)
       (map progress_of (steps (setup_without_await (record_steps (as_calls example_env))
          full_config ([], []))))"
  "\<not> sequential (plan full_config)
       (map progress_of (steps (setup_ignoring_rejection
          (record_steps (as_calls failing_migration_env)) full_config ([], []))))"
  by (simp_all add: setup_without_await_def setup_ignoring_rejection_def stepwise_defs
        factory_defs example_defs plan_def)

section \<open>The claims\<close>

text \<open>
  C1, as amended. When the server phase, the initialisation and the database phase
  complete and the migration phase throws, the setup rejects with the migration error
  and leaves the world as the migration left it. The rejection carries that error and
  nothing else: no teardown reaches the caller, and the setup has started no teardown
  action itself.
\<close>

theorem migration_failure_rejects_with_error_only:
  assumes "setupServer env config w = (Inr srv, w1)"
    and "Server_init env (inst_output srv) w1 = (Inr (), w2)"
    and "shouldRunDatabaseCreation env config (inst_output srv) w2 = (Inr dbo, w3)"
    and "shouldRunMigration env config (dbo_server dbo) w3 = (Inl e, w4)"
  shows "setup_plugin env config w = (Inl e, w4)
       \<and> returned_teardown (setup_plugin env config w) = None
       \<and> [ev \<leftarrow> journal (setup_plugin (instrument env) config ([], w)).
            mark_of ev = Started TeardownPhase] = []"
proof -
  have "setup_plugin env config w = (Inl e, w4)"
    using assms by (simp add: setup_plugin_def await_def Let_def)
  moreover from this have "returned_teardown (setup_plugin env config w) = None"
    by (simp add: returned_teardown_def)
  moreover have "[ev \<leftarrow> journal (setup_plugin (instrument env) config ([], w)).
            mark_of ev = Started TeardownPhase] = []"
    by (rule no_phase_no_call) (auto simp: plan_def split: option.splits)
  ultimately show ?thesis by blast
qed

theorem migration_failure_rejects_with_error_only_witness:
  "\<exists>srv w1 w2 dbo w3 w4.
      setupServer failing_migration_env full_config [] = (Inr srv, w1)
    \<and> Server_init failing_migration_env (inst_output srv) w1 = (Inr (), w2)
    \<and> shouldRunDatabaseCreation failing_migration_env full_config (inst_output srv) w2
        = (Inr dbo, w3)
    \<and> shouldRunMigration failing_migration_env full_config (dbo_server dbo) w3
        = (Inl (Error ''002.sql failed''), w4)
    \<and> setup_plugin failing_migration_env full_config [] = (Inl (Error ''002.sql failed''), w4)
    \<and> returned_teardown (setup_plugin failing_migration_env full_config []) = None"
proof -
  obtain srv w1 where s: "setupServer failing_migration_env full_config [] = (Inr srv, w1)"
    by (simp add: factory_defs example_defs)
  obtain w2 where i: "Server_init failing_migration_env (inst_output srv) w1 = (Inr (), w2)"
    by (simp add: example_defs)
  obtain dbo w3 where
    d: "shouldRunDatabaseCreation failing_migration_env full_config (inst_output srv) w2
          = (Inr dbo, w3)"
    by (simp add: factory_defs example_defs)
  obtain w4 where
    m: "shouldRunMigration failing_migration_env full_config (dbo_server dbo) w3
          = (Inl (Error ''002.sql failed''), w4)"
    by (simp add: factory_defs example_defs)
  from migration_failure_rejects_with_error_only [OF s i d m] s i d m show ?thesis
    by blast
qed

text \<open>
  C1 as stated fails. With a Docker server, a created database and a migration that
  throws on its second file, the caller holds the error and no teardown, while the
  container runs and the database exists.
\<close>

theorem migration_failure_teardown_counterexample:
  "fst (setup_plugin failing_migration_env full_config []) = Inl (Error ''002.sql failed'')
   \<and> returned_teardown (setup_plugin failing_migration_env full_config []) = None
   \<and> snd (setup_plugin failing_migration_env full_config [])
       = [''docker run'', ''connect'', ''CREATE DATABASE'', ''apply 001.sql'']"
  by (simp add: factory_defs example_defs returned_teardown_def)

text \<open>
  C2, as amended. The composite teardown runs its actions front to back and stops at
  the first one that throws: it rejects with that error, leaves the world as that
  action left it, and the actions after it are not started.
\<close>

theorem buildTeardown_stops_at_first_throw:
  assumes "buildTeardown before w = (Inr (), w1)" and "failing w1 = (Inl e, w2)"
  shows "buildTeardown (before @ failing # rest) w = (Inl e, w2)
       \<and> journal (buildTeardown (labelled 0 (before @ failing # rest)) ([], w))
           = tags 0 (Suc (length before))"
proof
  show "buildTeardown (before @ failing # rest) w = (Inl e, w2)"
    using assms by (simp add: buildTeardown_append await_def)
  have "buildTeardown (labelled 0 (before @ failing # rest)) ([], w)
          = (Inl e, (tags 0 (length before)
                       @ [Begin (TeardownAction (length before)),
                          End (TeardownAction (length before))], w2))"
    using labelled_all_resolve [OF assms(1), of 0 "[]"] assms(2)
    by (simp add: labelled_append buildTeardown_append await_def traced_def)
  then show "journal (buildTeardown (labelled 0 (before @ failing # rest)) ([], w))
               = tags 0 (Suc (length before))"
    by (simp add: journal_def tags_def)
qed

theorem buildTeardown_stops_at_first_throw_witness:
  "buildTeardown [(\<lambda>v. (Inr (), v @ [''DROP DATABASE'']))] [] = (Inr (), [''DROP DATABASE''])
   \<and> reject (Error ''stop failed'') [''DROP DATABASE'']
       = (Inl (Error ''stop failed''), [''DROP DATABASE''])
   \<and> buildTeardown ([(\<lambda>v. (Inr (), v @ [''DROP DATABASE'']))]
        @ reject (Error ''stop failed'') # [(\<lambda>v. (Inr (), v @ [''never'']))]) []
       = (Inl (Error ''stop failed''), [''DROP DATABASE''])
   \<and> journal (buildTeardown (labelled 0 ([(\<lambda>v. (Inr (), v @ [''DROP DATABASE'']))]
        @ reject (Error ''stop failed'') # [(\<lambda>v. (Inr (), v @ [''never'']))])) ([], []))
       = tags 0 (Suc (length [(\<lambda>v::string list. (Inr () :: error + unit, v @ [''DROP DATABASE'']))]))"
proof -
  have a: "buildTeardown [(\<lambda>v. (Inr (), v @ [''DROP DATABASE'']))] []
             = (Inr (), [''DROP DATABASE''])"
    by (simp add: await_def resolve_def)
  have b: "reject (Error ''stop failed'') [''DROP DATABASE'']
             = (Inl (Error ''stop failed''), [''DROP DATABASE''])"
    by (simp add: reject_def)
  note c = buildTeardown_stops_at_first_throw
      [of "[(\<lambda>v. (Inr (), v @ [''DROP DATABASE'']))]" "[]" "[''DROP DATABASE'']"
          "reject (Error ''stop failed'')" "Error ''stop failed''" "[''DROP DATABASE'']"
          "[(\<lambda>v. (Inr (), v @ [''never'']))]", OF a b]
  show ?thesis by (rule conjI [OF a conjI [OF b c]])
qed

text \<open>
  C2 as stated fails. The first of two actions throws: the composite rejects, the
  world is untouched, and the second action, which would stop the container, is never
  started.
\<close>

theorem buildTeardown_runs_all_counterexample:
  "buildTeardown [reject (Error ''drop failed''), (\<lambda>v. (Inr (), v @ [''docker stop'']))] []
     = (Inl (Error ''drop failed''), [])
   \<and> Begin (TeardownAction 1) \<notin> set (journal (buildTeardown
        (labelled 0 [reject (Error ''drop failed''), (\<lambda>v. (Inr (), v @ [''docker stop'']))])
        ([], [])))"
  by (simp add: await_def reject_def traced_def journal_def)

text \<open>
  C3. A server strategy tag that is not \<^verbatim>\<open>DOCKER\<close> makes the setup reject with
  \<^verbatim>\<open>Unknown strategy: <tag>\<close> before any collaborator is called. A migration strategy
  tag that is not \<^verbatim>\<open>SQL\<close> makes the dispatch throw
  \<^verbatim>\<open>Unknown migration strategy: <tag>\<close> without touching the world; the setup then
  always rejects, and neither the migration strategy nor the seed strategy is started.
\<close>

theorem unknown_strategy_tag_rejects:
  "(cfg_server config = IsConfig sc \<and> srv_strategy sc = UnknownServerStrategy tag \<longrightarrow>
      fst (setup_plugin env config w) = Inl (Error (''Unknown strategy: '' @ tag))
    \<and> journal (setup_plugin (instrument env) config ([], w)) = [])
 \<and> (cfg_migrate config = Some mc \<and> mig_strategy mc = UnknownMigrationStrategy tag \<longrightarrow>
      shouldRunMigration env config server w
        = (Inl (Error (''Unknown migration strategy: '' @ tag)), w)
    \<and> (\<exists>e. fst (setup_plugin env config w) = Inl e)
    \<and> [ev \<leftarrow> journal (setup_plugin (instrument env) config ([], w)).
         mark_of ev = Started MigrationRunPhase \<or> mark_of ev = Started SeedRunPhase] = [])"
proof (intro conjI impI)
  assume a: "cfg_server config = IsConfig sc \<and> srv_strategy sc = UnknownServerStrategy tag"
  have "\<exists>v. setupNewDatabaseServer env sc w = (Inl (Error (''Unknown strategy: '' @ tag)), v)"
    using a by (simp add: setupNewDatabaseServer_def assertNever_def reject_def Let_def
        split: prod.splits option.splits)
  then obtain v where "setupServer env config w = (Inl (Error (''Unknown strategy: '' @ tag)), v)"
    using a by (auto simp: setupServer_def)
  then show "fst (setup_plugin env config w) = Inl (Error (''Unknown strategy: '' @ tag))"
    by (simp add: setup_plugin_def await_rejected)
  obtain r l v where s: "setupServer (instrument env) config ([], w) = (r, (l, v))"
    by (metis prod.exhaust)
  then have "setupNewDatabaseServer (instrument env) sc ([], w) = (r, (l, v))"
    using a by (simp add: setupServer_def)
  from setupNew_journal [OF this] a have "l = []" "\<exists>e. r = Inl e" by auto
  with s show "journal (setup_plugin (instrument env) config ([], w)) = []"
    by (auto simp: setup_plugin_def await_def journal_def)
next
  assume a: "cfg_migrate config = Some mc \<and> mig_strategy mc = UnknownMigrationStrategy tag"
  show "shouldRunMigration env config server w
        = (Inl (Error (''Unknown migration strategy: '' @ tag)), w)"
    using a by (simp add: shouldRunMigration_def assertNever_def reject_def)
  have mig: "\<And>s v. shouldRunMigration env config s v
        = (Inl (Error (''Unknown migration strategy: '' @ tag)), v)"
    using a by (simp add: shouldRunMigration_def assertNever_def reject_def)
  show "\<exists>e. fst (setup_plugin env config w) = Inl e"
    by (auto simp: setup_plugin_def await_def Let_def mig split: prod.splits sum.splits)
  have migi: "\<And>s v. shouldRunMigration (instrument env) config s v
        = (Inl (Error (''Unknown migration strategy: '' @ tag)), v)"
    using a by (simp add: shouldRunMigration_def assertNever_def reject_def)
  show "[ev \<leftarrow> journal (setup_plugin (instrument env) config ([], w)).
         mark_of ev = Started MigrationRunPhase \<or> mark_of ev = Started SeedRunPhase] = []"
  proof -
    obtain r1 l1 w1 where s: "setupServer (instrument env) config ([], w) = (r1, (l1, w1))"
      by (metis prod.exhaust)
    from setupServer_journal [OF s]
    have l1: "\<forall>ev \<in> set l1.
        mark_of ev \<noteq> Started MigrationRunPhase \<and> mark_of ev \<noteq> Started SeedRunPhase"
      by auto
    show ?thesis
      using s l1
      by (auto simp: setup_plugin_def await_def Let_def migi journal_def filter_empty_conv
               traced_def shouldRunDatabaseCreation_def resolve_def
               split: prod.splits sum.splits option.splits)
  qed
qed

theorem unknown_strategy_tag_rejects_witness:
  "cfg_server unknown_server_tag_config = IsConfig unknown_server_config
   \<and> srv_strategy unknown_server_config = UnknownServerStrategy ''podman''
   \<and> fst (setup_plugin example_env unknown_server_tag_config [])
       = Inl (Error ''Unknown strategy: podman'')
   \<and> journal (setup_plugin (instrument example_env) unknown_server_tag_config ([], [])) = []
   \<and> cfg_migrate unknown_migration_tag_config = Some unknown_migration_config
   \<and> mig_strategy unknown_migration_config = UnknownMigrationStrategy ''knex''
   \<and> shouldRunMigration example_env unknown_migration_tag_config (Server 2) []
       = (Inl (Error ''Unknown migration strategy: knex''), [])
   \<and> (\<exists>e. fst (setup_plugin example_env unknown_migration_tag_config []) = Inl e)
   \<and> [ev \<leftarrow> journal (setup_plugin (instrument example_env) unknown_migration_tag_config ([], [])).
        mark_of ev = Started MigrationRunPhase \<or> mark_of ev = Started SeedRunPhase] = []"
proof -
  have a: "cfg_server unknown_server_tag_config = IsConfig unknown_server_config
           \<and> srv_strategy unknown_server_config = UnknownServerStrategy ''podman''"
    by (simp add: unknown_server_tag_config_def unknown_server_config_def)
  have b: "cfg_migrate unknown_migration_tag_config = Some unknown_migration_config
           \<and> mig_strategy unknown_migration_config = UnknownMigrationStrategy ''knex''"
    by (simp add: unknown_migration_tag_config_def unknown_migration_config_def)
  from unknown_strategy_tag_rejects
         [of unknown_server_tag_config unknown_server_config "''podman''" example_env "[]"]
       a
  have c: "fst (setup_plugin example_env unknown_server_tag_config [])
             = Inl (Error (''Unknown strategy: '' @ ''podman''))
           \<and> journal (setup_plugin (instrument example_env) unknown_server_tag_config ([], [])) = []"
    by blast
  from unknown_strategy_tag_rejects
         [of unknown_migration_tag_config _ "''knex''" example_env "[]" unknown_migration_config
             "Server 2"]
       b
  have d: "shouldRunMigration example_env unknown_migration_tag_config (Server 2) []
             = (Inl (Error (''Unknown migration strategy: '' @ ''knex'')), [])
    \<and> (\<exists>e. fst (setup_plugin example_env unknown_migration_tag_config []) = Inl e)
    \<and> [ev \<leftarrow> journal (setup_plugin (instrument example_env) unknown_migration_tag_config ([], [])).
         mark_of ev = Started MigrationRunPhase \<or> mark_of ev = Started SeedRunPhase] = []"
    by blast
  from a b c d show ?thesis by simp
qed

text \<open>
  C4. When \<^verbatim>\<open>migrate\<close> is omitted, the migration phase resolves to
  \<^verbatim>\<open>{ results: [] }\<close> without touching the world, the result of a setup that
  resolves carries that record, and the migration strategy is never started, whatever
  else the setup does. The same holds for \<^verbatim>\<open>seed\<close> and the seed strategy.
\<close>

theorem omitted_phase_gives_empty_results:
  "(cfg_migrate config = None \<longrightarrow>
      shouldRunMigration env config server w = (Inr \<lparr>mig_results = []\<rparr>, w)
    \<and> (\<forall>inst w'. setup_plugin env config w = (Inr inst, w') \<longrightarrow>
          res_migrate (inst_output inst) = \<lparr>mig_results = []\<rparr>)
    \<and> [ev \<leftarrow> journal (setup_plugin (instrument env) config ([], w)).
         mark_of ev = Started MigrationRunPhase] = [])
 \<and> (cfg_seed config = None \<longrightarrow>
      shouldRunSeed env config server w = (Inr \<lparr>seed_results = []\<rparr>, w)
    \<and> (\<forall>inst w'. setup_plugin env config w = (Inr inst, w') \<longrightarrow>
          res_seed (inst_output inst) = \<lparr>seed_results = []\<rparr>)
    \<and> [ev \<leftarrow> journal (setup_plugin (instrument env) config ([], w)).
         mark_of ev = Started SeedRunPhase] = [])"
proof (intro conjI impI allI)
  assume m: "cfg_migrate config = None"
  show "shouldRunMigration env config server w = (Inr \<lparr>mig_results = []\<rparr>, w)"
    using m by (simp add: shouldRunMigration_def resolve_def)
  show "res_migrate (inst_output inst) = \<lparr>mig_results = []\<rparr>"
    if "setup_plugin env config w = (Inr inst, w')" for inst w'
    using setup_plugin_Inr [OF that] m by (auto simp: shouldRunMigration_def resolve_def)
  show "[ev \<leftarrow> journal (setup_plugin (instrument env) config ([], w)).
         mark_of ev = Started MigrationRunPhase] = []"
    using m by (intro no_phase_no_call) (simp add: plan_def split: option.splits)
next
  assume s: "cfg_seed config = None"
  show "shouldRunSeed env config server w = (Inr \<lparr>seed_results = []\<rparr>, w)"
    using s by (simp add: shouldRunSeed_def resolve_def)
  show "res_seed (inst_output inst) = \<lparr>seed_results = []\<rparr>"
    if "setup_plugin env config w = (Inr inst, w')" for inst w'
    using setup_plugin_Inr [OF that] s by (auto simp: shouldRunSeed_def resolve_def)
  show "[ev \<leftarrow> journal (setup_plugin (instrument env) config ([], w)).
         mark_of ev = Started SeedRunPhase] = []"
    using s by (intro no_phase_no_call) (simp add: plan_def split: option.splits)
qed

theorem omitted_phase_gives_empty_results_witness:
  "cfg_migrate server_only_config = None
   \<and> cfg_seed server_only_config = None
   \<and> shouldRunMigration example_env server_only_config (Server 1) []
       = (Inr \<lparr>mig_results = []\<rparr>, [])
   \<and> shouldRunSeed example_env server_only_config (Server 1) []
       = (Inr \<lparr>seed_results = []\<rparr>, [])
   \<and> (\<exists>inst w'. setup_plugin example_env server_only_config [] = (Inr inst, w')
         \<and> res_migrate (inst_output inst) = \<lparr>mig_results = []\<rparr>
         \<and> res_seed (inst_output inst) = \<lparr>seed_results = []\<rparr>)
   \<and> [ev \<leftarrow> journal (setup_plugin (instrument example_env) server_only_config ([], [])).
        mark_of ev = Started MigrationRunPhase] = []
   \<and> [ev \<leftarrow> journal (setup_plugin (instrument example_env) server_only_config ([], [])).
        mark_of ev = Started SeedRunPhase] = []"
proof -
  have a: "cfg_migrate server_only_config = None" and b: "cfg_seed server_only_config = None"
    by (simp_all add: server_only_config_def)
  obtain inst w' where c: "setup_plugin example_env server_only_config [] = (Inr inst, w')"
    by (simp add: factory_defs example_defs)
  from omitted_phase_gives_empty_results [of server_only_config example_env "Server 1" "[]"]
    a b c
  show ?thesis by blast
qed

text \<open>
  C5. When \<^verbatim>\<open>database\<close> is omitted, the database phase resolves at once, on the
  world it was given, to the very server it was given and a teardown that resolves
  without touching the world.
\<close>

theorem database_omitted_passes_server_through:
  assumes "cfg_database config = None"
  shows "\<exists>out. shouldRunDatabaseCreation env config server w = (Inr out, w)
           \<and> dbo_server out = server
           \<and> (\<forall>v. dbo_teardown out v = (Inr (), v))"
  using assms by (simp add: shouldRunDatabaseCreation_def resolve_def)

theorem database_omitted_passes_server_through_witness:
  "cfg_database server_only_config = None
   \<and> (\<exists>out. shouldRunDatabaseCreation example_env server_only_config (Server 1)
               [''docker run'', ''connect'']
               = (Inr out, [''docker run'', ''connect''])
           \<and> dbo_server out = Server 1
           \<and> (\<forall>v. dbo_teardown out v = (Inr (), v)))"
proof -
  have a: "cfg_database server_only_config = None"
    by (simp add: server_only_config_def)
  from database_omitted_passes_server_through
         [OF a, of example_env "Server 1" "[''docker run'', ''connect'']"] a
  show ?thesis by blast
qed

text \<open>
  C6. The teardown of a setup that resolved is \<^verbatim>\<open>#buildTeardown\<close> applied to the
  teardown of the database phase followed by the teardown of the server phase.
  Invoked on any world, it runs the database teardown first, and the server teardown
  after it, on the world the database teardown left, once that one has resolved.
\<close>

theorem composite_teardown_is_database_then_server:
  assumes "setup_plugin env config w = (Inr inst, w')"
  shows "\<exists>srv w1 w2 dbo w3.
     setupServer env config w = (Inr srv, w1) \<and>
     Server_init env (inst_output srv) w1 = (Inr (), w2) \<and>
     shouldRunDatabaseCreation env config (inst_output srv) w2 = (Inr dbo, w3) \<and>
     inst_teardown inst = buildTeardown [dbo_teardown dbo, inst_teardown srv] \<and>
     (\<forall>v. inst_teardown inst v =
        (case dbo_teardown dbo v of
           (Inl e, v') \<Rightarrow> (Inl e, v')
         | (Inr u, v') \<Rightarrow> inst_teardown srv v'))"
proof -
  from setup_plugin_Inr [OF assms] obtain srv w1 w2 dbo w3 migrate w4 seed where
    s: "setupServer env config w = (Inr srv, w1)"
    and i: "Server_init env (inst_output srv) w1 = (Inr (), w2)"
    and d: "shouldRunDatabaseCreation env config (inst_output srv) w2 = (Inr dbo, w3)"
    and m: "shouldRunMigration env config (dbo_server dbo) w3 = (Inr migrate, w4)"
    and inst: "inst = \<lparr>inst_teardown = buildTeardown [dbo_teardown dbo, inst_teardown srv],
             inst_output = \<lparr>res_server = dbo_server dbo, res_migrate = migrate,
                            res_seed = seed\<rparr>\<rparr>"
    by blast
  have "\<forall>v. inst_teardown inst v =
        (case dbo_teardown dbo v of
           (Inl e, v') \<Rightarrow> (Inl e, v')
         | (Inr u, v') \<Rightarrow> inst_teardown srv v')"
    by (auto simp: inst await_def resolve_def split: prod.splits sum.splits)
  with s i d inst show ?thesis by auto
qed

theorem composite_teardown_is_database_then_server_witness:
  "\<exists>inst w'. setup_plugin example_env full_config [] = (Inr inst, w')
    \<and> (\<exists>srv w1 w2 dbo w3.
         setupServer example_env full_config [] = (Inr srv, w1) \<and>
         Server_init example_env (inst_output srv) w1 = (Inr (), w2) \<and>
         shouldRunDatabaseCreation example_env full_config (inst_output srv) w2
           = (Inr dbo, w3) \<and>
         inst_teardown inst = buildTeardown [dbo_teardown dbo, inst_teardown srv] \<and>
         (\<forall>v. inst_teardown inst v =
            (case dbo_teardown dbo v of
               (Inl e, v') \<Rightarrow> (Inl e, v')
             | (Inr u, v') \<Rightarrow> inst_teardown srv v')))
    \<and> inst_teardown inst [] = (Inr (), [''DROP DATABASE'', ''docker stop''])"
proof -
  obtain inst w' where a: "setup_plugin example_env full_config [] = (Inr inst, w')"
    by (simp add: factory_defs example_defs)
  have "inst_teardown inst [] = (Inr (), [''DROP DATABASE'', ''docker stop''])"
    using a by (auto simp: factory_defs example_defs)
  with composite_teardown_is_database_then_server [OF a] a show ?thesis
    by blast
qed

text \<open>
  C7, as amended. With the \<^verbatim>\<open>DOCKER\<close> strategy the Docker strategy is constructed
  once, with a configuration in which: the port is the given one, or 0; the user and
  the password are the given ones, even when empty, or fresh random strings; the
  database name is the given one when it is not empty, and otherwise the database name
  prefix (\<^verbatim>\<open>postgres\<close> when that is absent or empty), a dash and the random suffix;
  the server name is the server name prefix (\<^verbatim>\<open>postgres\<close> when absent or empty), a
  dash and the same suffix; the version is the given one when it is not empty, and
  \<^verbatim>\<open>latest\<close> otherwise.
\<close>

theorem docker_config_defaults:
  assumes "srv_strategy sc = DOCKER"
  shows "let suffix = fst (Math_random_string env w);
             w1 = snd (Math_random_string env w);
             w2 = (case srv_user sc of None \<Rightarrow> snd (Math_random_string env w1) | Some u \<Rightarrow> w1)
         in \<exists>dc. docker_configs (journal (setupNewDatabaseServer (instrument env) sc ([], w)))
                    = [dc]
              \<and> dkr_port dc = (case srv_port sc of None \<Rightarrow> 0 | Some p \<Rightarrow> p)
              \<and> dkr_user dc =
                  (case srv_user sc of None \<Rightarrow> fst (Math_random_string env w1) | Some u \<Rightarrow> u)
              \<and> dkr_password dc =
                  (case srv_password sc of
                     None \<Rightarrow> fst (Math_random_string env w2)
                   | Some p \<Rightarrow> p)
              \<and> dkr_database dc =
                  (case non_empty (srv_databaseName sc) of
                     Some name \<Rightarrow> name
                   | None \<Rightarrow>
                       (case non_empty (srv_databaseNamePrefix sc) of
                          None \<Rightarrow> ''postgres''
                        | Some p \<Rightarrow> p) @ ''-'' @ suffix)
              \<and> dkr_serverName dc =
                  (case non_empty (srv_databaseServerNamePrefix sc) of
                     None \<Rightarrow> ''postgres''
                   | Some p \<Rightarrow> p) @ ''-'' @ suffix
              \<and> dkr_version dc =
                  (case non_empty (srv_version sc) of None \<Rightarrow> ''latest'' | Some v \<Rightarrow> v)"
  using assms
  by (cases "srv_user sc"; cases "srv_password sc")
     (simp_all add: setupNewDatabaseServer_def Let_def traced_def journal_def or_else_def
        nullish_def non_empty_def case_prod_beta split: option.splits)

theorem docker_config_defaults_witness:
  "srv_strategy docker_config = DOCKER
   \<and> docker_configs (journal (setupNewDatabaseServer (instrument example_env) docker_config
        ([], [])))
       = [\<lparr>dkr_serverName = ''postgres-k3x9'', dkr_port = 0, dkr_user = ''k3x9'',
           dkr_password = ''k3x9'', dkr_database = ''postgres-k3x9'',
           dkr_version = ''latest''\<rparr>]
   \<and> srv_strategy specified_config = DOCKER
   \<and> docker_configs (journal (setupNewDatabaseServer (instrument example_env) specified_config
        ([], [])))
       = [\<lparr>dkr_serverName = ''pg-k3x9'', dkr_port = 5432, dkr_user = ''admin'',
           dkr_password = ''secret'', dkr_database = ''orders'', dkr_version = ''15''\<rparr>]"
proof -
  have a: "srv_strategy docker_config = DOCKER" and b: "srv_strategy specified_config = DOCKER"
    by (simp_all add: docker_config_def specified_config_def)
  from docker_config_defaults [OF a, of example_env "[]"]
  obtain dc where dc:
    "docker_configs (journal (setupNewDatabaseServer (instrument example_env) docker_config
        ([], []))) = [dc]"
    "dkr_port dc = 0" "dkr_user dc = ''k3x9''" "dkr_password dc = ''k3x9''"
    "dkr_database dc = ''postgres-k3x9''" "dkr_serverName dc = ''postgres-k3x9''"
    "dkr_version dc = ''latest''"
    by (auto simp: Let_def example_defs non_empty_def)
  from docker_config_defaults [OF b, of example_env "[]"]
  obtain dc' where dc':
    "docker_configs (journal (setupNewDatabaseServer (instrument example_env) specified_config
        ([], []))) = [dc']"
    "dkr_port dc' = 5432" "dkr_user dc' = ''admin''" "dkr_password dc' = ''secret''"
    "dkr_database dc' = ''orders''" "dkr_serverName dc' = ''pg-k3x9''"
    "dkr_version dc' = ''15''"
    by (auto simp: Let_def example_defs non_empty_def)
  from dc dc' a b show ?thesis by simp
qed

text \<open>
  C7 as stated fails: a version that is specified as the empty string is not used as
  given, the Docker strategy gets \<^verbatim>\<open>latest\<close>.
\<close>

theorem specified_field_used_as_given_counterexample:
  "srv_version (docker_config\<lparr>srv_version := Some ''''\<rparr>) = Some ''''
   \<and> map dkr_version (docker_configs (journal (setupNewDatabaseServer (instrument example_env)
         (docker_config\<lparr>srv_version := Some ''''\<rparr>) ([], [])))) = [''latest'']"
  by (simp add: factory_defs recording_defs example_defs)




text \<open>
  C9. With recording strategies, and whatever they do, the journal of a setup is
  sequential for the plan of the configuration: server setup, initialisation, then
  database, migration and seed, each only if configured; each is called only after the
  promise of the one before has resolved, and nothing is called after a promise has
  rejected. The setup resolves exactly when every phase of the plan was called and
  resolved. When it rejects, either the last call of the journal rejected, or the
  setup reached a dispatch on an unrecognised tag with every phase before it resolved.
\<close>

theorem phases_run_one_after_another:
  "sequential (plan config)
     (map progress_of (steps (setup_plugin_stepwise (record_steps env) config ([], w))))
   \<and> ((\<exists>inst. fst (setup_plugin_stepwise (record_steps env) config ([], w)) = Inr inst)
        = (map progress_of (steps (setup_plugin_stepwise (record_steps env) config ([], w)))
            = all_resolved (plan config)))
   \<and> ((\<exists>e. fst (setup_plugin_stepwise (record_steps env) config ([], w)) = Inl e) \<longrightarrow>
         (\<exists>c. steps (setup_plugin_stepwise (record_steps env) config ([], w)) \<noteq> []
            \<and> last (steps (setup_plugin_stepwise (record_steps env) config ([], w))) = Rejected c)
       \<or> map_option all_resolved (phases_before_unknown_tag config)
           = Some (map progress_of
                (steps (setup_plugin_stepwise (record_steps env) config ([], w)))))"
proof -
  obtain r1 l1 w1 where
    s: "awaited (setupServer_call (record_steps env) config) ([], w) = (r1, (l1, w1))"
    by (metis prod.exhaust)
  show ?thesis
  proof (cases r1)
    case (Inl e)
    show ?thesis
    proof (cases "l1 = []")
      case True
      from setupServer_steps_unknown [OF s] True
      have "phases_before_unknown_tag config = Some []"
        by (auto simp: phases_before_unknown_tag_def)
      with s Inl True show ?thesis
        by (auto simp: setup_plugin_stepwise_def await_def steps_def plan_def)
    next
      case False
      with Inl s setupServer_steps [OF s] show ?thesis
        by (auto simp: setup_plugin_stepwise_def await_def steps_def plan_def)
    qed
  next
    case (Inr srv)
    with setupServer_steps [OF s] obtain c
      where c: "phase_of c = ServerSetupPhase" "l1 = [Called c, Resolved c]"
      by auto
    have known: "\<not> (\<exists>sc t. cfg_server config = IsConfig sc
                     \<and> srv_strategy sc = UnknownServerStrategy t)"
    proof
      assume "\<exists>sc t. cfg_server config = IsConfig sc \<and> srv_strategy sc = UnknownServerStrategy t"
      then obtain sc t where u: "cfg_server config = IsConfig sc"
        "srv_strategy sc = UnknownServerStrategy t" by blast
      with s
      have "awaited (setupNewDatabaseServer_call (record_steps env) sc) ([], w) = (r1, (l1, w1))"
        by (simp add: setupServer_call_def)
      from setupNew_steps [OF this] u Inr show False by simp
    qed
    obtain r2 l2 w2 where
      i: "awaited (call_Server_init (record_steps env) (inst_output srv)) (l1, w1)
            = (r2, (l2, w2))"
      by (metis prod.exhaust)
    have l2: "l2 = l1 @ [Called (Init (inst_output srv)),
                         settled_as (Init (inst_output srv)) r2]"
      using i by (auto dest: awaited_recording)
    show ?thesis
    proof (cases r2)
      case (Inl e)
      with s Inr i c l2 show ?thesis
        by (auto simp: setup_plugin_stepwise_def await_def steps_def plan_def)
    next
      case Inr2: (Inr u)
      obtain r3 l3 w3 where
        d: "awaited (shouldRunDatabaseCreation_call (record_steps env) config (inst_output srv))
              (l2, w2) = (r3, (l3, w3))"
        by (metis prod.exhaust)
      show ?thesis
      proof (cases r3)
        case (Inl e)
        with s Inr i Inr2 c l2 d database_steps [OF d] show ?thesis
          by (auto simp: setup_plugin_stepwise_def await_def steps_def plan_def
                   split: option.splits)
      next
        case Inr3: (Inr dbo)
        obtain r4 l4 w4 where
          m: "awaited (shouldRunMigration_call (record_steps env) config (dbo_server dbo))
                (l3, w3) = (r4, (l4, w4))"
          by (metis prod.exhaust)
        show ?thesis
        proof (cases r4)
          case (Inl e)
          with s Inr i Inr2 c l2 d Inr3 m database_steps [OF d] migration_steps [OF m] known
          show ?thesis
            by (cases "cfg_server config")
               (auto simp: setup_plugin_stepwise_def await_def steps_def plan_def Let_def
                     phases_before_unknown_tag_def
                     split: option.splits MigrationStrategy.splits ServerStrategy.splits)
        next
          case Inr4: (Inr mo)
          obtain r5 l5 w5 where
            sd: "awaited (shouldRunSeed_call (record_steps env) config (dbo_server dbo))
                   (l4, w4) = (r5, (l5, w5))"
            by (metis prod.exhaust)
          with s Inr i Inr2 c l2 d Inr3 m Inr4 database_steps [OF d]
            migration_steps [OF m] seed_steps [OF sd]
          show ?thesis
            by (cases r5)
               (auto simp: setup_plugin_stepwise_def await_def steps_def plan_def Let_def
                     resolve_def split: option.splits MigrationStrategy.splits)
        qed
      qed
    qed
  qed
qed

theorem phases_run_one_after_another_witness:
  "map progress_of (steps (setup_plugin_stepwise (record_steps (as_calls example_env))
      full_config ([], [])))
     = [Calls ServerSetupPhase, Resolves ServerSetupPhase,
        Calls ServerInitPhase, Resolves ServerInitPhase,
        Calls DatabaseSetupPhase, Resolves DatabaseSetupPhase,
        Calls MigrationRunPhase, Resolves MigrationRunPhase,
        Calls SeedRunPhase, Resolves SeedRunPhase]
   \<and> map progress_of (steps (setup_plugin_stepwise (record_steps (as_calls failing_migration_env))
      full_config ([], [])))
     = [Calls ServerSetupPhase, Resolves ServerSetupPhase,
        Calls ServerInitPhase, Resolves ServerInitPhase,
        Calls DatabaseSetupPhase, Resolves DatabaseSetupPhase,
        Calls MigrationRunPhase, Rejects MigrationRunPhase]
   \<and> sequential (plan full_config)
        (map progress_of (steps (setup_plugin_stepwise
           (record_steps (as_calls failing_migration_env)) full_config ([], []))))
   \<and> last (steps (setup_plugin_stepwise (record_steps (as_calls failing_migration_env))
        full_config ([], [])))
       = Rejected (MigrationRun \<lparr>mig_strategy = SQL, mig_root = ''migrations''\<rparr> (Server 2))
   \<and> map_option all_resolved (phases_before_unknown_tag unknown_migration_tag_config)
       = Some (map progress_of (steps (setup_plugin_stepwise (record_steps (as_calls example_env))
           unknown_migration_tag_config ([], []))))"
proof -
  have "\<exists>inst. fst (setup_plugin_stepwise (record_steps (as_calls example_env)) full_config
                    ([], [])) = Inr inst"
    by (simp add: stepwise_defs factory_defs example_defs)
  with phases_run_one_after_another [of full_config "as_calls example_env" "[]"]
  have "map progress_of (steps (setup_plugin_stepwise (record_steps (as_calls example_env))
          full_config ([], []))) = all_resolved (plan full_config)"
    by blast
  then have a: "map progress_of (steps (setup_plugin_stepwise (record_steps (as_calls example_env))
      full_config ([], [])))
     = [Calls ServerSetupPhase, Resolves ServerSetupPhase,
        Calls ServerInitPhase, Resolves ServerInitPhase,
        Calls DatabaseSetupPhase, Resolves DatabaseSetupPhase,
        Calls MigrationRunPhase, Resolves MigrationRunPhase,
        Calls SeedRunPhase, Resolves SeedRunPhase]"
    by (simp add: plan_def full_config_def)
  have b: "map progress_of (steps (setup_plugin_stepwise
             (record_steps (as_calls failing_migration_env)) full_config ([], [])))
     = [Calls ServerSetupPhase, Resolves ServerSetupPhase,
        Calls ServerInitPhase, Resolves ServerInitPhase,
        Calls DatabaseSetupPhase, Resolves DatabaseSetupPhase,
        Calls MigrationRunPhase, Rejects MigrationRunPhase]"
    by (simp add: stepwise_defs factory_defs example_defs)
  from phases_run_one_after_another [of full_config "as_calls failing_migration_env" "[]"]
  have c: "sequential (plan full_config)
        (map progress_of (steps (setup_plugin_stepwise
           (record_steps (as_calls failing_migration_env)) full_config ([], []))))"
    by blast
  have d: "last (steps (setup_plugin_stepwise (record_steps (as_calls failing_migration_env))
        full_config ([], [])))
       = Rejected (MigrationRun \<lparr>mig_strategy = SQL, mig_root = ''migrations''\<rparr> (Server 2))"
    by (simp add: stepwise_defs factory_defs example_defs)
  have e: "map_option all_resolved (phases_before_unknown_tag unknown_migration_tag_config)
       = Some (map progress_of (steps (setup_plugin_stepwise (record_steps (as_calls example_env))
           unknown_migration_tag_config ([], []))))"
    by (simp add: stepwise_defs factory_defs example_defs phases_before_unknown_tag_def)
  from a b c d e show ?thesis by blast
qed

text \<open>
  C10. An empty \<^verbatim>\<open>databaseName\<close>, \<^verbatim>\<open>databaseNamePrefix\<close>,
  \<^verbatim>\<open>databaseServerNamePrefix\<close> or \<^verbatim>\<open>version\<close> gives the same run as the field left
  out, so an empty version becomes \<^verbatim>\<open>latest\<close>. An empty \<^verbatim>\<open>user\<close> or
  \<^verbatim>\<open>password\<close> reaches the Docker strategy as the empty string, and a port given as
  0 reaches it as 0.
\<close>

theorem empty_string_and_zero_are_not_treated_alike:
  assumes "srv_strategy sc = DOCKER"
  shows "setupNewDatabaseServer env (sc\<lparr>srv_databaseName := Some ''''\<rparr>)
           = setupNewDatabaseServer env (sc\<lparr>srv_databaseName := None\<rparr>)
       \<and> setupNewDatabaseServer env (sc\<lparr>srv_databaseNamePrefix := Some ''''\<rparr>)
           = setupNewDatabaseServer env (sc\<lparr>srv_databaseNamePrefix := None\<rparr>)
       \<and> setupNewDatabaseServer env (sc\<lparr>srv_databaseServerNamePrefix := Some ''''\<rparr>)
           = setupNewDatabaseServer env (sc\<lparr>srv_databaseServerNamePrefix := None\<rparr>)
       \<and> setupNewDatabaseServer env (sc\<lparr>srv_version := Some ''''\<rparr>)
           = setupNewDatabaseServer env (sc\<lparr>srv_version := None\<rparr>)
       \<and> map dkr_version (docker_configs (journal (setupNewDatabaseServer (instrument env)
             (sc\<lparr>srv_version := Some ''''\<rparr>) ([], w)))) = [''latest'']
       \<and> map dkr_user (docker_configs (journal (setupNewDatabaseServer (instrument env)
             (sc\<lparr>srv_user := Some ''''\<rparr>) ([], w)))) = ['''']
       \<and> map dkr_password (docker_configs (journal (setupNewDatabaseServer (instrument env)
             (sc\<lparr>srv_password := Some ''''\<rparr>) ([], w)))) = ['''']
       \<and> map dkr_port (docker_configs (journal (setupNewDatabaseServer (instrument env)
             (sc\<lparr>srv_port := Some 0\<rparr>) ([], w)))) = [0]"
proof -
  have eqs: "setupNewDatabaseServer env (sc\<lparr>srv_databaseName := Some ''''\<rparr>)
           = setupNewDatabaseServer env (sc\<lparr>srv_databaseName := None\<rparr>)"
    "setupNewDatabaseServer env (sc\<lparr>srv_databaseNamePrefix := Some ''''\<rparr>)
           = setupNewDatabaseServer env (sc\<lparr>srv_databaseNamePrefix := None\<rparr>)"
    "setupNewDatabaseServer env (sc\<lparr>srv_databaseServerNamePrefix := Some ''''\<rparr>)
           = setupNewDatabaseServer env (sc\<lparr>srv_databaseServerNamePrefix := None\<rparr>)"
    "setupNewDatabaseServer env (sc\<lparr>srv_version := Some ''''\<rparr>)
           = setupNewDatabaseServer env (sc\<lparr>srv_version := None\<rparr>)"
    by (simp_all add: setupNewDatabaseServer_def or_else_def)
  have obs: "map dkr_version (docker_configs (journal (setupNewDatabaseServer (instrument env)
             (sc\<lparr>srv_version := Some ''''\<rparr>) ([], w)))) = [''latest'']"
    "map dkr_user (docker_configs (journal (setupNewDatabaseServer (instrument env)
             (sc\<lparr>srv_user := Some ''''\<rparr>) ([], w)))) = ['''']"
    "map dkr_password (docker_configs (journal (setupNewDatabaseServer (instrument env)
             (sc\<lparr>srv_password := Some ''''\<rparr>) ([], w)))) = ['''']"
    "map dkr_port (docker_configs (journal (setupNewDatabaseServer (instrument env)
             (sc\<lparr>srv_port := Some 0\<rparr>) ([], w)))) = [0]"
    using assms
    by (simp_all add: setupNewDatabaseServer_def Let_def traced_def journal_def or_else_def
          nullish_def case_prod_beta split: option.splits)
  from eqs obs show ?thesis by blast
qed

theorem empty_string_and_zero_are_not_treated_alike_witness:
  "srv_strategy specified_config = DOCKER
   \<and> map dkr_database (docker_configs (journal (setupNewDatabaseServer (instrument example_env)
        (specified_config\<lparr>srv_databaseName := Some ''''\<rparr>) ([], [])))) = [''ignored-k3x9'']
   \<and> map dkr_version (docker_configs (journal (setupNewDatabaseServer (instrument example_env)
        (specified_config\<lparr>srv_version := Some ''''\<rparr>) ([], [])))) = [''latest'']
   \<and> map dkr_user (docker_configs (journal (setupNewDatabaseServer (instrument example_env)
        (specified_config\<lparr>srv_user := Some ''''\<rparr>) ([], [])))) = ['''']
   \<and> map dkr_user (docker_configs (journal (setupNewDatabaseServer (instrument example_env)
        (specified_config\<lparr>srv_user := None\<rparr>) ([], [])))) = [''k3x9'']
   \<and> map dkr_password (docker_configs (journal (setupNewDatabaseServer (instrument example_env)
        (specified_config\<lparr>srv_password := Some ''''\<rparr>) ([], [])))) = ['''']
   \<and> map dkr_port (docker_configs (journal (setupNewDatabaseServer (instrument example_env)
        (specified_config\<lparr>srv_port := Some 0\<rparr>) ([], [])))) = [0]"
proof -
  have a: "srv_strategy specified_config = DOCKER"
    by (simp add: specified_config_def)
  note t = empty_string_and_zero_are_not_treated_alike
             [OF a, where env = example_env and w = "[]"]
  note t' = empty_string_and_zero_are_not_treated_alike
              [OF a, where env = "instrument example_env" and w = "([], [])"]
  have n: "map dkr_database (docker_configs (journal (setupNewDatabaseServer
             (instrument example_env) (specified_config\<lparr>srv_databaseName := None\<rparr>) ([], []))))
           = [''ignored-k3x9'']"
    by (simp add: factory_defs recording_defs example_defs)
  have u: "map dkr_user (docker_configs (journal (setupNewDatabaseServer (instrument example_env)
        (specified_config\<lparr>srv_user := None\<rparr>) ([], [])))) = [''k3x9'']"
    by (simp add: factory_defs recording_defs example_defs)
  from t t' a n u show ?thesis by simp
qed

end
